theory Spec2Isabelle
  imports Main "HOL-Library.Word"
begin

section \<open>Values, errors and external capabilities\<close>

text \<open>
  A shallow embedding of \<^verbatim>\<open>packages/ensjs/src/getProfile.ts\<close>. JavaScript strings are
  \<open>string\<close>; hex strings (\<^verbatim>\<open>"0x..."\<close>) are strings as well, as they are in the source.
  Every \<^verbatim>\<open>throw\<close> (of the source or of a library it calls) is an \<open>Inl\<close> result.
\<close>

datatype error =
    TypeError       \<comment> \<open>JavaScript runtime error: a property of \<^verbatim>\<open>undefined\<close> or \<^verbatim>\<open>null\<close> is read\<close>
  | AbiError        \<comment> \<open>the ABI coder rejects its argument\<close>
  | ArgumentError   \<comment> \<open>an ethers utility rejects its argument\<close>
  | CallFailure     \<comment> \<open>an external call (contract, index, name lookup) fails\<close>

type_synonym 'a result = "error + 'a"

type_synonym byte = "8 word"

datatype recordType = Text | Addr | Contenthash

fun typeName :: "recordType \<Rightarrow> string" where
  "typeName Text = ''text''"
| "typeName Addr = ''addr''"
| "typeName Contenthash = ''contenthash''"

text \<open>A call descriptor \<^verbatim>\<open>{ key, data, type }\<close>; \<^verbatim>\<open>data\<close> is a hex string on the forward
  path and a \<^verbatim>\<open>{ sig, data }\<close> object on the reverse path.\<close>

record 'd call =
  call_key :: string
  call_data :: 'd
  call_type :: recordType

record resolverData =
  sig :: string
  args :: "(string \<times> string) list"   \<comment> \<open>\<^verbatim>\<open>[{ dataType, data }]\<close>\<close>

text \<open>\<^verbatim>\<open>InternalProfileOptions\<close>. \<open>None\<close> is an absent (or otherwise falsy, non-string)
  field; \<open>Some []\<close> is an empty array, which JavaScript counts as truthy.\<close>

datatype contentHashOption = Flag bool | Literal string

record InternalProfileOptions =
  contentHash :: "contentHashOption option"
  texts :: "string list option"
  coinTypes :: "string list option"

text \<open>\<^verbatim>\<open>DataItem\<close> and the object \<^verbatim>\<open>returnedResponse\<close> of \<^verbatim>\<open>formatRecords\<close>. In
  \<open>out_contentHash\<close>, \<open>None\<close> is an absent bucket and \<open>Some None\<close> is \<^verbatim>\<open>null\<close>.\<close>

record DataItem =
  item_key :: string
  item_type :: recordType
  item_coin :: "string option"
  item_value :: string

record returnedResponse =
  out_contentHash :: "string option option"
  out_coinTypes :: "DataItem list option"
  out_texts :: "DataItem list option"

text \<open>An entry of \<^verbatim>\<open>formatsByCoinType\<close> (package \<^verbatim>\<open>@ensdomains/address-encoder\<close>). The
  encoder receives the hex digits \<^verbatim>\<open>decodedFromAbi.slice(2)\<close>; the conversion
  \<^verbatim>\<open>Buffer.from(_, 'hex')\<close> is part of the parameter.\<close>

record format =
  format_name :: string
  format_encoder :: "string \<Rightarrow> string result"

text \<open>The index (GraphQL) response: \<^verbatim>\<open>domains: [{ resolver: { texts, coinTypes,
  contentHash } }]\<close>, every field nullable.\<close>

record resolverResponse =
  idx_texts :: "string list option"
  idx_coinTypes :: "string list option"
  idx_contentHash :: "string option"

record domain =
  domain_resolver :: "resolverResponse option"

text \<open>The object returned by \<^verbatim>\<open>ENS.getName\<close>.\<close>

record nameResult =
  nr_name :: string
  nr_match :: bool

text \<open>
  The facade \<^verbatim>\<open>InternalENS\<close> with the libraries the file imports. None of them is part of
  the file, so each is a parameter:
  \<^item> \<open>namehash\<close>: \<^verbatim>\<open>ethers.utils.namehash\<close>;
  \<^item> \<open>encodeFunctionData\<close>: \<^verbatim>\<open>publicResolver.interface.encodeFunctionData(sig, args)\<close>
    for string arguments, and \<open>encodeMulticall\<close> the same for
    \<^verbatim>\<open>'multicall(bytes[])'\<close>;
  \<^item> \<open>abiEncode\<close>: \<^verbatim>\<open>defaultAbiCoder.encode([dataType], [data])\<close>;
  \<^item> \<open>hexEncodeName\<close>: \<^verbatim>\<open>./utils/hexEncodedName\<close>;
  \<^item> \<open>resolve\<close>, \<open>reverse\<close>: the universal resolver's calls; \<open>reverse\<close> yields
    \<^verbatim>\<open>result['0']\<close> and \<^verbatim>\<open>result['1']\<close>;
  \<^item> \<open>decodeBytesArray\<close>, \<open>decodeBytes\<close>, \<open>decodeString\<close>:
    \<^verbatim>\<open>defaultAbiCoder.decode\<close> at \<^verbatim>\<open>['bytes[]']\<close>, \<^verbatim>\<open>['bytes']\<close> and \<^verbatim>\<open>['string']\<close>;
    \<open>decodeBytes\<close> gives the raw bytes, which \<open>hexlify\<close> below prints;
  \<^item> \<open>formatsByCoinType\<close>: the table of address codecs;
  \<^item> \<open>request\<close>: \<^verbatim>\<open>ENS.gqlInstance.client.request(query, { name })\<close>, giving
    \<^verbatim>\<open>domains\<close>;
  \<^item> \<open>getName\<close>: \<^verbatim>\<open>ENS.getName\<close>.
\<close>

record ENS =
  namehash :: "string \<Rightarrow> string result"
  encodeFunctionData :: "string \<Rightarrow> string list \<Rightarrow> string result"
  encodeMulticall :: "string list \<Rightarrow> string result"
  abiEncode :: "string \<Rightarrow> string \<Rightarrow> string result"
  hexEncodeName :: "string \<Rightarrow> string"
  resolve :: "string \<Rightarrow> string \<Rightarrow> string result"
  reverse :: "string \<Rightarrow> resolverData list \<Rightarrow> (string \<times> string list) result"
  decodeBytesArray :: "string \<Rightarrow> string list result"
  decodeBytes :: "string \<Rightarrow> byte list result"
  decodeString :: "string \<Rightarrow> string result"
  formatsByCoinType :: "string \<Rightarrow> format option"
  request :: "string \<Rightarrow> domain list result"
  getName :: "string \<Rightarrow> nameResult result"

text \<open>The external calls a resolution makes, in order.\<close>

datatype event =
    EvResolve string string
  | EvReverse string "resolverData list"
  | EvRequest string
  | EvGetName string

section \<open>String and hex helpers\<close>

text \<open>\<^verbatim>\<open>String.prototype.toLowerCase\<close> on ASCII letters (addresses and hex strings are
  ASCII).\<close>

definition toLowerChar :: "char \<Rightarrow> char" where
  "toLowerChar c =
     (let n = (of_char c :: nat) in if 65 \<le> n \<and> n \<le> 90 then char_of (n + 32) else c)"

definition toLowerCase :: "string \<Rightarrow> string" where
  "toLowerCase s = map toLowerChar s"

definition hexDigit :: "nat \<Rightarrow> char" where
  "hexDigit n = ''0123456789abcdef'' ! n"

definition hexByte :: "byte \<Rightarrow> string" where
  "hexByte b = [hexDigit (unat b div 16), hexDigit (unat b mod 16)]"

text \<open>Modelled from the spec: \<^verbatim>\<open>defaultAbiCoder.decode(['bytes'], item)[0]\<close> is code of the
  ethers library, not of this file. The spec calls its result the raw bytes of the
  record ("decode as raw bytes"); the source uses it as a \<^verbatim>\<open>0x\<close> hex string. \<open>hexlify\<close>
  is that string for the decoded bytes: \<^verbatim>\<open>0x\<close> and two lower-case digits per byte.\<close>

definition hexlify :: "byte list \<Rightarrow> string" where
  "hexlify bs = ''0x'' @ concat (map hexByte bs)"

definition isHexString :: "string \<Rightarrow> bool" where
  "isHexString v =
     (take 2 v = ''0x'' \<and> (\<forall>c \<in> set (drop 2 v). c \<in> set ''0123456789abcdefABCDEF''))"

text \<open>Modelled from the spec: \<^verbatim>\<open>ethers.utils.hexStripZeros\<close> is code of the ethers library.
  The spec reads the test \<^verbatim>\<open>hexStripZeros(v) === '0x'\<close> as "the byte value is all-zero":
  the function removes the leading \<^verbatim>\<open>0\<close> digits of a hex string, and rejects a string
  that is not one.\<close>

definition hexStripZeros :: "string \<Rightarrow> string result" where
  "hexStripZeros v =
     (if isHexString v then Inr (''0x'' @ dropWhile (\<lambda>c. c = CHR ''0'') (drop 2 v))
      else Inl ArgumentError)"

text \<open>Every JavaScript array is truthy, the empty one too.\<close>

definition truthy :: "'a list \<Rightarrow> bool" where
  "truthy xs = True"

text \<open>\<^verbatim>\<open>Array.prototype.findIndex\<close>; \<open>None\<close> is the result \<^verbatim>\<open>-1\<close>.\<close>

fun findIndex :: "('a \<Rightarrow> bool) \<Rightarrow> 'a list \<Rightarrow> nat option" where
  "findIndex p [] = None"
| "findIndex p (x # xs) =
     (if p x then Some 0 else map_option Suc (findIndex p xs))"

text \<open>\<^verbatim>\<open>decode(['bytes'], data[i])[0]\<close>, where \<^verbatim>\<open>i\<close> is the result of \<^verbatim>\<open>findIndex\<close>: at
  \<^verbatim>\<open>-1\<close> or past the end, \<^verbatim>\<open>data[i]\<close> is \<^verbatim>\<open>undefined\<close>, and decoding it throws a
  TypeError.\<close>

definition decodeAt :: "ENS \<Rightarrow> string list \<Rightarrow> nat option \<Rightarrow> string result" where
  "decodeAt E data i =
     (case i of
        None \<Rightarrow> Inl TypeError
      | Some n \<Rightarrow>
          if n < length data then
            (case decodeBytes E (data ! n) of Inl e \<Rightarrow> Inl e | Inr bs \<Rightarrow> Inr (hexlify bs))
          else Inl TypeError)"

section \<open>The call list of \<^verbatim>\<open>getDataForName\<close>\<close>

definition encodeData :: "ENS \<Rightarrow> string \<Rightarrow> string list \<Rightarrow> string result" where
  "encodeData E s as = encodeFunctionData E s as"

text \<open>\<^verbatim>\<open>addCalls\<close> pushes one call per item onto \<^verbatim>\<open>calls\<close>; the list is threaded through.\<close>

fun addCalls ::
  "ENS \<Rightarrow> string list \<Rightarrow> recordType \<Rightarrow> string \<Rightarrow> string \<Rightarrow> string call list
     \<Rightarrow> string call list result" where
  "addCalls E [] recordType functionArgs name calls = Inr calls"
| "addCalls E (item # recordArray) recordType functionArgs name calls =
     (case namehash E name of
        Inl e \<Rightarrow> Inl e
      | Inr h \<Rightarrow>
          (case encodeData E (typeName recordType @ functionArgs) [h, item] of
             Inl e \<Rightarrow> Inl e
           | Inr d \<Rightarrow>
               addCalls E recordArray recordType functionArgs name
                 (calls @ [\<lparr>call_key = item, call_data = d, call_type = recordType\<rparr>])))"

text \<open>Lines 33 to 75 of the source: the calls for the texts, the coin types and the
  content hash, and then the guarded push of the \<^verbatim>\<open>'60'\<close> call.\<close>

definition textCalls :: "ENS \<Rightarrow> string \<Rightarrow> InternalProfileOptions \<Rightarrow> string call list result" where
  "textCalls E name options =
     (case texts options of
        None \<Rightarrow> Inr []
      | Some ts \<Rightarrow> addCalls E ts Text ''(bytes32,string)'' name [])"

definition coinCalls ::
  "ENS \<Rightarrow> string \<Rightarrow> InternalProfileOptions \<Rightarrow> string call list \<Rightarrow> string call list result" where
  "coinCalls E name options calls =
     (case coinTypes options of
        None \<Rightarrow> Inr calls
      | Some cs \<Rightarrow> addCalls E cs Addr ''(bytes32,uint256)'' name calls)"

definition contentHashCall ::
  "ENS \<Rightarrow> string \<Rightarrow> InternalProfileOptions \<Rightarrow> string call list \<Rightarrow> string call list result" where
  "contentHashCall E name options calls =
     (case contentHash options of
        Some (Flag True) \<Rightarrow>
          (case encodeData E ''contenthash(bytes32)'' [name] of
             Inl e \<Rightarrow> Inl e
           | Inr d \<Rightarrow>
               Inr (calls @ [\<lparr>call_key = ''contentHash'', call_data = d,
                              call_type = Contenthash\<rparr>]))
      | _ \<Rightarrow> Inr calls)"

definition primaryCall :: "ENS \<Rightarrow> string \<Rightarrow> string call list \<Rightarrow> string call list result" where
  "primaryCall E name calls =
     (if \<not> truthy (filter (\<lambda>x. call_key x = ''60'') calls) then
        (case encodeData E ''addr(bytes32,uint256)'' [name, ''60''] of
           Inl e \<Rightarrow> Inl e
         | Inr d \<Rightarrow> Inr (calls @ [\<lparr>call_key = ''60'', call_data = d, call_type = Addr\<rparr>]))
      else Inr calls)"

definition nameCalls :: "ENS \<Rightarrow> string \<Rightarrow> InternalProfileOptions \<Rightarrow> string call list result" where
  "nameCalls E name options =
     (case textCalls E name options of
        Inl e \<Rightarrow> Inl e
      | Inr c1 \<Rightarrow>
          (case coinCalls E name options c1 of
             Inl e \<Rightarrow> Inl e
           | Inr c2 \<Rightarrow>
               (case contentHashCall E name options c2 of
                  Inl e \<Rightarrow> Inl e
                | Inr c3 \<Rightarrow> primaryCall E name c3)))"

section \<open>\<^verbatim>\<open>formatRecords\<close>\<close>

text \<open>The \<^verbatim>\<open>switch\<close> on the call's type, reached with \<^verbatim>\<open>decodedFromAbi\<close> already computed
  for the types \<^verbatim>\<open>addr\<close> and \<^verbatim>\<open>contenthash\<close>. \<open>Inr None\<close> is \<^verbatim>\<open>return null\<close>.\<close>

definition switchType :: "ENS \<Rightarrow> string \<Rightarrow> 'd call \<Rightarrow> string \<Rightarrow> DataItem option result" where
  "switchType E item c decodedFromAbi =
     (case call_type c of
        Text \<Rightarrow>
          (case decodeString E item of
             Inl e \<Rightarrow> Inl e
           | Inr v \<Rightarrow>
               if v = [] then Inr None
               else Inr (Some \<lparr>item_key = call_key c, item_type = Text,
                                item_coin = None, item_value = v\<rparr>))
      | Addr \<Rightarrow>
          (case formatsByCoinType E (call_key c) of
             Some f \<Rightarrow>
               (case format_encoder f (drop 2 decodedFromAbi) of
                  Inl e \<Rightarrow> Inl e
                | Inr v \<Rightarrow>
                    Inr (Some \<lparr>item_key = call_key c, item_type = Addr,
                                item_coin = Some (format_name f), item_value = v\<rparr>))
           | None \<Rightarrow> Inr None)
      | Contenthash \<Rightarrow>
          Inr (Some \<lparr>item_key = call_key c, item_type = Contenthash,
                      item_coin = None, item_value = decodedFromAbi\<rparr>))"

text \<open>The callback of \<^verbatim>\<open>data.map\<close> for the item \<^verbatim>\<open>item\<close> and its call \<^verbatim>\<open>calls[i]\<close>.\<close>

definition formatItem :: "ENS \<Rightarrow> string \<Rightarrow> 'd call \<Rightarrow> DataItem option result" where
  "formatItem E item c =
     (if call_type c = Addr \<or> call_type c = Contenthash then
        (case decodeBytes E item of
           Inl e \<Rightarrow> Inl e
         | Inr bs \<Rightarrow>
             (case hexStripZeros (hexlify bs) of
                Inl e \<Rightarrow> Inl e
              | Inr z \<Rightarrow>
                  if z = ''0x'' then Inr None else switchType E item c (hexlify bs)))
      else switchType E item c [])"

text \<open>\<^verbatim>\<open>data.map((item, i) => ... calls[i] ...)\<close>: the item at position \<^verbatim>\<open>i\<close> meets
  \<^verbatim>\<open>calls[i]\<close>, so the two lists are walked together. An item past the end of \<^verbatim>\<open>calls\<close>
  reads \<^verbatim>\<open>calls[i].key\<close> of \<^verbatim>\<open>undefined\<close>, a TypeError; calls past the end of \<^verbatim>\<open>data\<close>
  are never looked at.\<close>

fun mapItems :: "ENS \<Rightarrow> string list \<Rightarrow> 'd call list \<Rightarrow> DataItem option list result" where
  "mapItems E [] calls = Inr []"
| "mapItems E (item # data) [] = Inl TypeError"
| "mapItems E (item # data) (c # calls) =
     (case formatItem E item c of
        Inl e \<Rightarrow> Inl e
      | Inr r \<Rightarrow>
          (case mapItems E data calls of
             Inl e \<Rightarrow> Inl e
           | Inr rs \<Rightarrow> Inr (r # rs)))"

text \<open>The two \<^verbatim>\<open>filter\<close> calls after the \<^verbatim>\<open>map\<close>: \<^verbatim>\<open>typeof x === 'object'\<close> holds of every
  entry (of \<^verbatim>\<open>null\<close> too), \<^verbatim>\<open>x !== null\<close> removes the \<^verbatim>\<open>null\<close> entries.\<close>

definition returnedRecords :: "DataItem option list \<Rightarrow> DataItem list" where
  "returnedRecords rs = map the (filter (\<lambda>x. x \<noteq> None) (filter (\<lambda>x. True) rs))"

definition contentHashBucket ::
  "InternalProfileOptions \<Rightarrow> DataItem list \<Rightarrow> string option option result" where
  "contentHashBucket options recs =
     (case contentHash options of
        Some (Literal s) \<Rightarrow>
          (case hexStripZeros s of
             Inl e \<Rightarrow> Inl e
           | Inr z \<Rightarrow> if z = ''0x'' then Inr (Some None) else Inr (Some (Some s)))
      | Some (Flag True) \<Rightarrow>
          (case find (\<lambda>r. item_type r = Contenthash) recs of
             Some foundRecord \<Rightarrow> Inr (Some (Some (item_value foundRecord)))
           | None \<Rightarrow> Inr (Some None))
      | _ \<Rightarrow> Inr None)"

text \<open>The second half of \<^verbatim>\<open>formatRecords\<close>: the object \<^verbatim>\<open>returnedResponse\<close> built from
  the records kept. A bucket exists when its option is truthy.\<close>

definition assemble :: "InternalProfileOptions \<Rightarrow> DataItem list \<Rightarrow> returnedResponse result" where
  "assemble options recs =
     (case contentHashBucket options recs of
        Inl e \<Rightarrow> Inl e
      | Inr ch \<Rightarrow>
          Inr \<lparr>out_contentHash = ch,
               out_coinTypes =
                 (case coinTypes options of
                    None \<Rightarrow> None
                  | Some _ \<Rightarrow> Some (filter (\<lambda>x. item_type x = Addr) recs)),
               out_texts =
                 (case texts options of
                    None \<Rightarrow> None
                  | Some _ \<Rightarrow> Some (filter (\<lambda>x. item_type x = Text) recs))\<rparr>)"

definition formatRecords ::
  "ENS \<Rightarrow> string list \<Rightarrow> 'd call list \<Rightarrow> InternalProfileOptions \<Rightarrow> returnedResponse result" where
  "formatRecords E data calls options =
     (case mapItems E data calls of
        Inl e \<Rightarrow> Inl e
      | Inr rs \<Rightarrow> assemble options (returnedRecords rs))"

section \<open>\<^verbatim>\<open>getDataForName\<close>\<close>

record forwardResult =
  fr_address :: string
  fr_records :: returnedResponse

text \<open>The result is the list of external calls made and the value returned or the
  error thrown.\<close>

definition getDataForName ::
  "ENS \<Rightarrow> string \<Rightarrow> InternalProfileOptions \<Rightarrow> event list \<times> forwardResult result" where
  "getDataForName E name options =
     (case nameCalls E name options of
        Inl e \<Rightarrow> ([], Inl e)
      | Inr calls \<Rightarrow>
          (case encodeMulticall E (map call_data calls) of
             Inl e \<Rightarrow> ([], Inl e)
           | Inr data \<Rightarrow>
               ([EvResolve (hexEncodeName E name) data],
                (case resolve E (hexEncodeName E name) data of
                   Inl e \<Rightarrow> Inl e
                 | Inr resolver \<Rightarrow>
                     (case decodeBytesArray E resolver of
                        Inl e \<Rightarrow> Inl e
                      | Inr recordData \<Rightarrow>
                          (case decodeAt E recordData
                                  (findIndex (\<lambda>x. call_key x = ''60'') calls) of
                             Inl e \<Rightarrow> Inl e
                           | Inr address \<Rightarrow>
                               (case formatRecords E recordData calls options of
                                  Inl e \<Rightarrow> Inl e
                                | Inr records \<Rightarrow>
                                    Inr \<lparr>fr_address = address, fr_records = records\<rparr>)))))))"

section \<open>\<^verbatim>\<open>getDataForAddress\<close>\<close>

text \<open>\<^verbatim>\<open>makeResolverData(sig, dataType?, data?)\<close>: an absent argument and the empty string
  are both falsy.\<close>

definition makeResolverData ::
  "ENS \<Rightarrow> string \<Rightarrow> string option \<Rightarrow> string option \<Rightarrow> resolverData result" where
  "makeResolverData E s dataType d =
     (case (dataType, d) of
        (Some t, Some v) \<Rightarrow>
          if t \<noteq> [] \<and> v \<noteq> [] then
            (case abiEncode E t v of
               Inl e \<Rightarrow> Inl e
             | Inr enc \<Rightarrow> Inr \<lparr>sig = s, args = [(t, enc)]\<rparr>)
          else Inr \<lparr>sig = s, args = []\<rparr>
      | _ \<Rightarrow> Inr \<lparr>sig = s, args = []\<rparr>)"

text \<open>\<^verbatim>\<open>callArgs.split(',')[0].replace(')', '')\<close>: the text before the first comma, without
  its first closing parenthesis.\<close>

definition dataTypeOf :: "string \<Rightarrow> string" where
  "dataTypeOf callArgs = remove1 (CHR '')'') (takeWhile (\<lambda>c. c \<noteq> CHR '','') callArgs)"

fun addCallsR ::
  "ENS \<Rightarrow> string list \<Rightarrow> resolverData call list \<Rightarrow> recordType \<Rightarrow> string
     \<Rightarrow> resolverData call list result" where
  "addCallsR E [] callArray type callArgs = Inr callArray"
| "addCallsR E (item # keyArray) callArray type callArgs =
     (case makeResolverData E (typeName type @ callArgs) (Some (dataTypeOf callArgs)) (Some item) of
        Inl e \<Rightarrow> Inl e
      | Inr d \<Rightarrow>
          addCallsR E keyArray
            (callArray @ [\<lparr>call_key = item, call_data = d, call_type = type\<rparr>]) type callArgs)"

definition primaryCallR :: "ENS \<Rightarrow> resolverData call list \<Rightarrow> resolverData call list result" where
  "primaryCallR E calls =
     (if \<not> truthy (filter (\<lambda>x. call_key x = ''60'') calls) then
        (case makeResolverData E ''addr(bytes32,uint256)'' (Some ''uint256'') (Some ''60'') of
           Inl e \<Rightarrow> Inl e
         | Inr d \<Rightarrow> Inr (calls @ [\<lparr>call_key = ''60'', call_data = d, call_type = Addr\<rparr>]))
      else Inr calls)"

text \<open>Lines 137 to 155 of the source.\<close>

definition addressCalls :: "ENS \<Rightarrow> InternalProfileOptions \<Rightarrow> resolverData call list result" where
  "addressCalls E options =
     (case (case texts options of
              None \<Rightarrow> Inr []
            | Some ts \<Rightarrow> addCallsR E ts [] Text ''(bytes32,string)'') of
        Inl e \<Rightarrow> Inl e
      | Inr c1 \<Rightarrow>
          (case (case coinTypes options of
                   None \<Rightarrow> Inr c1
                 | Some cs \<Rightarrow> addCallsR E cs c1 Addr ''(bytes32,uint256)'') of
             Inl e \<Rightarrow> Inl e
           | Inr c2 \<Rightarrow>
               (case (case contentHash options of
                        Some (Flag True) \<Rightarrow>
                          (case makeResolverData E ''contenthash(bytes32)'' None None of
                             Inl e \<Rightarrow> Inl e
                           | Inr d \<Rightarrow>
                               Inr (c2 @ [\<lparr>call_key = ''contentHash'', call_data = d,
                                           call_type = Contenthash\<rparr>]))
                      | _ \<Rightarrow> Inr c2) of
                  Inl e \<Rightarrow> Inl e
                | Inr c3 \<Rightarrow> primaryCallR E c3)))"

text \<open>The \<^verbatim>\<open>name\<close> field of a reverse result is the string \<^verbatim>\<open>result['0']\<close> (or
  \<^verbatim>\<open>name.name\<close>), or the whole object returned by \<^verbatim>\<open>ENS.getName\<close>.\<close>

datatype nameField = NameString string | NameObject nameResult

record reverseResult =
  rr_name :: nameField
  rr_records :: "returnedResponse option"
  rr_match :: bool

definition reverseNode :: "string \<Rightarrow> string" where
  "reverseNode address = drop 2 (toLowerCase address) @ ''.addr.reverse''"

definition getDataForAddress ::
  "ENS \<Rightarrow> string \<Rightarrow> InternalProfileOptions \<Rightarrow> event list \<times> reverseResult result" where
  "getDataForAddress E address options =
     (case addressCalls E options of
        Inl e \<Rightarrow> ([], Inl e)
      | Inr calls \<Rightarrow>
          ([EvReverse (hexEncodeName E (reverseNode address)) (map call_data calls)],
           (case reverse E (hexEncodeName E (reverseNode address)) (map call_data calls) of
              Inl e \<Rightarrow> Inl e
            | Inr (name, data) \<Rightarrow>
                (case decodeAt E data (findIndex (\<lambda>x. call_key x = ''60'') calls) of
                   Inl e \<Rightarrow> Inl e
                 | Inr primary \<Rightarrow>
                     if primary \<noteq> toLowerCase address then
                       Inr \<lparr>rr_name = NameString name, rr_records = None, rr_match = False\<rparr>
                     else
                       (case formatRecords E data calls options of
                          Inl e \<Rightarrow> Inl e
                        | Inr records \<Rightarrow>
                            Inr \<lparr>rr_name = NameString name, rr_records = Some records,
                                 rr_match = True\<rparr>)))))"

section \<open>\<^verbatim>\<open>graphFetch\<close> and the entry points\<close>

text \<open>\<^verbatim>\<open>ProfileOptions\<close>. A field is a boolean or a list of keys; after \<^verbatim>\<open>graphFetch\<close> has
  written the index's values into the object it may also hold a string (the content
  hash) or \<^verbatim>\<open>null\<close>. \<open>None\<close> is an absent field.\<close>

datatype hashField = HashFlag bool | HashLiteral string | HashNull

datatype keysField = KeysFlag bool | KeysList "string list" | KeysNull

record ProfileOptions =
  want_contentHash :: "hashField option"
  want_texts :: "keysField option"
  want_coinTypes :: "keysField option"

text \<open>\<^verbatim>\<open>wantedRecords[key] = resolverResponse[key]\<close> for a field that is the boolean
  \<^verbatim>\<open>true\<close>; reading a field of a \<^verbatim>\<open>null\<close> resolver is a TypeError.\<close>

definition overwriteHash :: "resolverResponse option \<Rightarrow> hashField option \<Rightarrow> hashField option result" where
  "overwriteHash resolverResponse f =
     (case f of
        Some (HashFlag True) \<Rightarrow>
          (case resolverResponse of
             None \<Rightarrow> Inl TypeError
           | Some r \<Rightarrow>
               Inr (Some (case idx_contentHash r of None \<Rightarrow> HashNull | Some s \<Rightarrow> HashLiteral s)))
      | _ \<Rightarrow> Inr f)"

definition overwriteKeys ::
  "resolverResponse option \<Rightarrow> (resolverResponse \<Rightarrow> string list option) \<Rightarrow> keysField option
     \<Rightarrow> keysField option result" where
  "overwriteKeys resolverResponse field f =
     (case f of
        Some (KeysFlag True) \<Rightarrow>
          (case resolverResponse of
             None \<Rightarrow> Inl TypeError
           | Some r \<Rightarrow> Inr (Some (case field r of None \<Rightarrow> KeysNull | Some ks \<Rightarrow> KeysList ks)))
      | _ \<Rightarrow> Inr f)"

text \<open>The loop over \<^verbatim>\<open>Object.keys(wantedRecords)\<close>, in the order of the default object
  \<^verbatim>\<open>{ contentHash, texts, coinTypes }\<close>; the fields do not depend on each other and
  every failure is the same TypeError, so the order does not show in the result.\<close>

definition overwriteAll :: "resolverResponse option \<Rightarrow> ProfileOptions \<Rightarrow> ProfileOptions result" where
  "overwriteAll resolverResponse wantedRecords =
     (case overwriteHash resolverResponse (want_contentHash wantedRecords) of
        Inl e \<Rightarrow> Inl e
      | Inr h \<Rightarrow>
          (case overwriteKeys resolverResponse idx_texts (want_texts wantedRecords) of
             Inl e \<Rightarrow> Inl e
           | Inr t \<Rightarrow>
               (case overwriteKeys resolverResponse idx_coinTypes (want_coinTypes wantedRecords) of
                  Inl e \<Rightarrow> Inl e
                | Inr c \<Rightarrow>
                    Inr \<lparr>want_contentHash = h, want_texts = t, want_coinTypes = c\<rparr>)))"

text \<open>The destructuring \<^verbatim>\<open>{ domains: [{ resolver: resolverResponse }] }\<close> reads the first
  element of \<^verbatim>\<open>domains\<close>; on an empty list that element is \<^verbatim>\<open>undefined\<close> and the
  destructuring throws a TypeError.\<close>

definition graphFetch :: "ENS \<Rightarrow> string \<Rightarrow> ProfileOptions \<Rightarrow> event list \<times> ProfileOptions result" where
  "graphFetch E name wantedRecords =
     ([EvRequest name],
      (case request E name of
         Inl e \<Rightarrow> Inl e
       | Inr domains \<Rightarrow>
           (case domains of
              [] \<Rightarrow> Inl TypeError
            | d # _ \<Rightarrow> overwriteAll (domain_resolver d) wantedRecords)))"

text \<open>The cast \<^verbatim>\<open>options as InternalProfileOptions\<close> (and the passing of a
  \<^verbatim>\<open>ProfileResponse\<close> where \<^verbatim>\<open>InternalProfileOptions\<close> is expected), as
  \<^verbatim>\<open>getDataForName\<close> and \<^verbatim>\<open>getDataForAddress\<close> read the object: \<^verbatim>\<open>false\<close> and \<^verbatim>\<open>null\<close> are
  falsy like an absent field; a key list that is the boolean \<^verbatim>\<open>true\<close> has no
  \<^verbatim>\<open>forEach\<close>, a TypeError before any call is made.\<close>

definition internalKeys :: "keysField option \<Rightarrow> string list option result" where
  "internalKeys f =
     (case f of
        Some (KeysList ks) \<Rightarrow> Inr (Some ks)
      | Some (KeysFlag True) \<Rightarrow> Inl TypeError
      | _ \<Rightarrow> Inr None)"

definition internalHash :: "hashField option \<Rightarrow> contentHashOption option" where
  "internalHash f =
     (case f of
        Some (HashFlag b) \<Rightarrow> Some (Flag b)
      | Some (HashLiteral s) \<Rightarrow> Some (Literal s)
      | _ \<Rightarrow> None)"

definition internalOptions :: "ProfileOptions \<Rightarrow> InternalProfileOptions result" where
  "internalOptions options =
     (case internalKeys (want_texts options) of
        Inl e \<Rightarrow> Inl e
      | Inr t \<Rightarrow>
          (case internalKeys (want_coinTypes options) of
             Inl e \<Rightarrow> Inl e
           | Inr c \<Rightarrow>
               Inr \<lparr>contentHash = internalHash (want_contentHash options),
                    texts = t, coinTypes = c\<rparr>))"

definition defaultOptions :: ProfileOptions where
  "defaultOptions =
     \<lparr>want_contentHash = Some (HashFlag True), want_texts = Some (KeysFlag True),
      want_coinTypes = Some (KeysFlag True)\<rparr>"

text \<open>The condition \<^verbatim>\<open>!options || (options && options.texts === true) ||
  options.coinTypes === true\<close> of both entry points.\<close>

definition shortcut :: "ProfileOptions option \<Rightarrow> bool" where
  "shortcut options =
     (case options of
        None \<Rightarrow> True
      | Some opts \<Rightarrow>
          want_texts opts = Some (KeysFlag True) \<or> want_coinTypes opts = Some (KeysFlag True))"

definition orDefault :: "ProfileOptions option \<Rightarrow> ProfileOptions" where
  "orDefault options = (case options of None \<Rightarrow> defaultOptions | Some opts \<Rightarrow> opts)"

text \<open>The two entry points. Their condition fails only for an options object that is
  given, so in the \<^verbatim>\<open>else\<close> branch \<open>orDefault\<close> merely unwraps it. The object passed on is
  read by \<open>internalOptions\<close>, as the callee will read it.\<close>

definition getProfileFromName ::
  "ENS \<Rightarrow> string \<Rightarrow> ProfileOptions option \<Rightarrow> event list \<times> forwardResult result" where
  "getProfileFromName E name options =
     (if shortcut options then
        (case graphFetch E name (orDefault options) of
           (ev, Inl e) \<Rightarrow> (ev, Inl e)
         | (ev, Inr wantedRecords) \<Rightarrow>
             (case internalOptions wantedRecords of
                Inl e \<Rightarrow> (ev, Inl e)
              | Inr wanted \<Rightarrow>
                  (case getDataForName E name wanted of
                     (ev', Inl e) \<Rightarrow> (ev @ ev', Inl e)
                   | (ev', Inr r) \<Rightarrow>
                       (ev @ ev', Inr \<lparr>fr_address = fr_address r, fr_records = fr_records r\<rparr>))))
      else
        (case internalOptions (orDefault options) of
           Inl e \<Rightarrow> ([], Inl e)
         | Inr opts \<Rightarrow> getDataForName E name opts))"

definition getProfileFromAddress ::
  "ENS \<Rightarrow> string \<Rightarrow> ProfileOptions option \<Rightarrow> event list \<times> reverseResult result" where
  "getProfileFromAddress E address options =
     (if shortcut options then
        (case getName E address of
           Inl e \<Rightarrow> ([EvGetName address], Inl e)
         | Inr name \<Rightarrow>
             if \<not> nr_match name then
               ([EvGetName address],
                Inr \<lparr>rr_name = NameObject name, rr_records = None, rr_match = False\<rparr>)
             else
               (case graphFetch E (nr_name name) (orDefault options) of
                  (ev, Inl e) \<Rightarrow> (EvGetName address # ev, Inl e)
                | (ev, Inr wantedRecords) \<Rightarrow>
                    (case internalOptions wantedRecords of
                       Inl e \<Rightarrow> (EvGetName address # ev, Inl e)
                     | Inr wanted \<Rightarrow>
                         (case getDataForName E (nr_name name) wanted of
                            (ev', Inl e) \<Rightarrow> (EvGetName address # ev @ ev', Inl e)
                          | (ev', Inr r) \<Rightarrow>
                              (EvGetName address # ev @ ev',
                               Inr \<lparr>rr_name = NameString (nr_name name),
                                    rr_records = Some (fr_records r), rr_match = True\<rparr>)))))
      else
        (case internalOptions (orDefault options) of
           Inl e \<Rightarrow> ([], Inl e)
         | Inr opts \<Rightarrow> getDataForAddress E address opts))"

text \<open>The default export: \<^verbatim>\<open>nameOrAddress.includes('.')\<close> chooses the path.\<close>

datatype profile = NameProfile forwardResult | AddressProfile reverseResult

definition getProfile ::
  "ENS \<Rightarrow> string \<Rightarrow> ProfileOptions option \<Rightarrow> event list \<times> profile result" where
  "getProfile E nameOrAddress options =
     (if CHR ''.'' \<in> set nameOrAddress then
        (case getProfileFromName E nameOrAddress options of
           (ev, Inl e) \<Rightarrow> (ev, Inl e)
         | (ev, Inr r) \<Rightarrow> (ev, Inr (NameProfile r)))
      else
        (case getProfileFromAddress E nameOrAddress options of
           (ev, Inl e) \<Rightarrow> (ev, Inl e)
         | (ev, Inr r) \<Rightarrow> (ev, Inr (AddressProfile r))))"

section \<open>Properties named by the specification\<close>

text \<open>The specification's "unset" value of a response item, for the call it answers: the
  empty string for a text record, a byte value with only zero bytes for an address or a
  content hash.\<close>

definition unset :: "ENS \<Rightarrow> string \<Rightarrow> 'd call \<Rightarrow> bool" where
  "unset E item c =
     (case call_type c of
        Text \<Rightarrow> decodeString E item = Inr []
      | _ \<Rightarrow> (case decodeBytes E item of Inl e \<Rightarrow> False | Inr bs \<Rightarrow> list_all (\<lambda>b. b = 0) bs))"

text \<open>A hex string whose digits are all \<^verbatim>\<open>0\<close>: a byte value that is all zero.\<close>

definition zeroHex :: "string \<Rightarrow> bool" where
  "zeroHex v = list_all (\<lambda>c. c = CHR ''0'') (drop 2 v)"

text \<open>The key lists a request names, with an absent list read as empty.\<close>

definition requestedKeys :: "string list option \<Rightarrow> string list" where
  "requestedKeys ks = (case ks of None \<Rightarrow> [] | Some l \<Rightarrow> l)"

text \<open>The records of an output bucket, with an absent bucket read as empty.\<close>

definition bucket :: "DataItem list option \<Rightarrow> DataItem list" where
  "bucket b = (case b of None \<Rightarrow> [] | Some l \<Rightarrow> l)"

text \<open>The key of the content-hash call, when the request has one.\<close>

definition hashKey :: "InternalProfileOptions \<Rightarrow> string list" where
  "hashKey options = (if contentHash options = Some (Flag True) then [''contentHash''] else [])"

text \<open>The request the specification expects the forward resolver to receive on the
  shortcut path: every field that was the boolean \<^verbatim>\<open>true\<close> replaced by the index's value
  for it (\<^verbatim>\<open>null\<close> counting as absent), every other field as it was given.\<close>

definition concretized :: "resolverResponse \<Rightarrow> ProfileOptions \<Rightarrow> InternalProfileOptions" where
  "concretized rr w =
     \<lparr>contentHash =
        (case want_contentHash w of
           Some (HashFlag True) \<Rightarrow> map_option Literal (idx_contentHash rr)
         | f \<Rightarrow> internalHash f),
      texts =
        (case want_texts w of
           Some (KeysFlag True) \<Rightarrow> idx_texts rr
         | Some (KeysList ks) \<Rightarrow> Some ks
         | _ \<Rightarrow> None),
      coinTypes =
        (case want_coinTypes w of
           Some (KeysFlag True) \<Rightarrow> idx_coinTypes rr
         | Some (KeysList ks) \<Rightarrow> Some ks
         | _ \<Rightarrow> None)\<rparr>"

section \<open>A sample environment\<close>

text \<open>
  A small concrete environment on which the definitions can be run. Its wire format is
  as simple as possible: the resolver's answer is the list \<open>items\<close>; an item decodes as a
  string to itself; as bytes, the item \<^verbatim>\<open>P\<close> is the 20-byte address ending in \<^verbatim>\<open>ab\<close>,
  \<^verbatim>\<open>Q\<close> the one ending in \<^verbatim>\<open>cd\<close>, \<^verbatim>\<open>Z\<close> twenty zero bytes, \<^verbatim>\<open>H\<close> a two-byte content
  hash, and any other item is rejected. Only coin type 60 has an address codec. The ABI
  coder encodes a value only for a well-formed type name and rejects every other type
  string, \<^verbatim>\<open>(bytes32\<close> among them.
\<close>

definition ethFormat :: format where
  "ethFormat = \<lparr>format_name = ''ETH'', format_encoder = (\<lambda>h. Inr (''0x'' @ h))\<rparr>"

definition sampleBytes :: "string \<Rightarrow> byte list result" where
  "sampleBytes w =
     (if w = ''P'' then Inr (replicate 19 0 @ [0xAB])
      else if w = ''Q'' then Inr (replicate 19 0 @ [0xCD])
      else if w = ''Z'' then Inr (replicate 20 0)
      else if w = ''H'' then Inr [0xE3, 0x01]
      else Inl AbiError)"

definition sampleAbiEncode :: "string \<Rightarrow> string \<Rightarrow> string result" where
  "sampleAbiEncode t v =
     (if t \<in> set [''string'', ''uint256'', ''bytes32'', ''bytes'', ''address''] then Inr v
      else Inl ArgumentError)"

definition sampleENS :: "string list \<Rightarrow> domain list \<Rightarrow> nameResult \<Rightarrow> ENS" where
  "sampleENS items domains nm =
     \<lparr>namehash = (\<lambda>n. Inr (''#'' @ n)),
      encodeFunctionData = (\<lambda>s as. Inr (s @ concat as)),
      encodeMulticall = (\<lambda>ds. Inr (concat ds)),
      abiEncode = sampleAbiEncode,
      hexEncodeName = (\<lambda>n. n),
      resolve = (\<lambda>n d. Inr ''R''),
      reverse = (\<lambda>n cs. Inr (''alice.eth'', items)),
      decodeBytesArray = (\<lambda>w. Inr items),
      decodeBytes = sampleBytes,
      decodeString = (\<lambda>w. Inr w),
      formatsByCoinType = (\<lambda>k. if k = ''60'' then Some ethFormat else None),
      request = (\<lambda>n. Inr domains),
      getName = (\<lambda>a. Inr nm)\<rparr>"

definition sampleAddress :: string where
  "sampleAddress = ''0x00000000000000000000000000000000000000AB''"

definition noName :: nameResult where
  "noName = \<lparr>nr_name = [], nr_match = False\<rparr>"

definition aliceName :: nameResult where
  "aliceName = \<lparr>nr_name = ''alice.eth'', nr_match = True\<rparr>"

definition onlyEmail :: InternalProfileOptions where
  "onlyEmail = \<lparr>contentHash = None, texts = Some [''email''], coinTypes = None\<rparr>"

text \<open>Calls, requests and records used in the examples.\<close>

definition emailCall :: "string call" where
  "emailCall = \<lparr>call_key = ''email'', call_data = [], call_type = Text\<rparr>"

definition coinCall :: "string \<Rightarrow> string call" where
  "coinCall k = \<lparr>call_key = k, call_data = [], call_type = Addr\<rparr>"

definition hashCall :: "string call" where
  "hashCall = \<lparr>call_key = ''contentHash'', call_data = [], call_type = Contenthash\<rparr>"

definition everything :: InternalProfileOptions where
  "everything = \<lparr>contentHash = Some (Flag True), texts = Some [''email''], coinTypes = Some [''60'']\<rparr>"


definition zeroLiteral :: InternalProfileOptions where
  "zeroLiteral =
     \<lparr>contentHash = Some (Literal ''0x0000000000000000000000000000000000000000000000000000000000000000''),
      texts = None, coinTypes = Some [''60'']\<rparr>"

definition sixtyAndZero :: InternalProfileOptions where
  "sixtyAndZero = \<lparr>contentHash = None, texts = None, coinTypes = Some [''60'', ''0'']\<rparr>"

definition onlySixty :: InternalProfileOptions where
  "onlySixty = \<lparr>contentHash = None, texts = None, coinTypes = Some [''60'']\<rparr>"

text \<open>The forward call the sample environment builds for a coin type.\<close>

definition coinCallData :: "string \<Rightarrow> string \<Rightarrow> string call" where
  "coinCallData name k =
     \<lparr>call_key = k, call_data = ''addr(bytes32,uint256)#'' @ name @ k, call_type = Addr\<rparr>"

definition hashCallR :: "resolverData call" where
  "hashCallR =
     \<lparr>call_key = ''contentHash'',
      call_data = \<lparr>sig = ''contenthash(bytes32)'', args = []\<rparr>,
      call_type = Contenthash\<rparr>"

definition onlyHash :: InternalProfileOptions where
  "onlyHash = \<lparr>contentHash = Some (Flag True), texts = None, coinTypes = None\<rparr>"

definition literalOnly :: InternalProfileOptions where
  "literalOnly =
     \<lparr>contentHash = Some (Literal ''0x0000000000000000000000000000000000000000000000000000000000000000''),
      texts = None, coinTypes = None\<rparr>"

definition hashWanted :: ProfileOptions where
  "hashWanted =
     \<lparr>want_contentHash = Some (HashFlag True), want_texts = None, want_coinTypes = None\<rparr>"

definition aliceDomain :: domain where
  "aliceDomain =
     \<lparr>domain_resolver =
        Some \<lparr>idx_texts = Some [''email''], idx_coinTypes = Some [''60''],
              idx_contentHash = Some ''0xe301''\<rparr>\<rparr>"

definition narrow :: ProfileOptions where
  "narrow = \<lparr>want_contentHash = None, want_texts = None, want_coinTypes = Some (KeysList [''60''])\<rparr>"

definition sixtyRecord :: DataItem where
  "sixtyRecord =
     \<lparr>item_key = ''60'', item_type = Addr, item_coin = Some ''ETH'',
      item_value = ''0x00000000000000000000000000000000000000ab''\<rparr>"

definition emailRecord :: DataItem where
  "emailRecord =
     \<lparr>item_key = ''email'', item_type = Text, item_coin = None, item_value = ''hello''\<rparr>"

section \<open>Hex strings\<close>

lemma hexDigit_zero: "n < 16 \<Longrightarrow> (hexDigit n = CHR ''0'') = (n = 0)"
  unfolding hexDigit_def
  by (auto simp: less_Suc_eq numeral_eq_Suc nth_Cons')

lemma hexDigit_lower: "n < 16 \<Longrightarrow> hexDigit n \<in> set ''0123456789abcdef''"
  unfolding hexDigit_def
  by (auto simp: less_Suc_eq numeral_eq_Suc nth_Cons')

lemma unat_byte_div: "unat (b::byte) div 16 < 16"
proof -
  have "unat b < 2 ^ LENGTH(8)" by (rule unsigned_less)
  then show ?thesis by simp
qed

lemma hexByte_zero: "(\<forall>c \<in> set (hexByte b). c = CHR ''0'') = (b = 0)"
proof -
  have "unat b = 16 * (unat b div 16) + unat b mod 16" by simp
  then have "(unat b div 16 = 0 \<and> unat b mod 16 = 0) = (unat b = 0)" by presburger
  then show ?thesis
    by (simp add: hexByte_def hexDigit_zero unat_byte_div unat_eq_0)
qed

lemma hexByte_lower: "c \<in> set (hexByte b) \<Longrightarrow> c \<in> set ''0123456789abcdef''"
  using hexDigit_lower [OF unat_byte_div, of b] hexDigit_lower [of "unat b mod 16"]
  by (auto simp: hexByte_def)

lemma isHexString_hexlify: "isHexString (hexlify bs)"
  using hexByte_lower by (fastforce simp: isHexString_def hexlify_def)

text \<open>The test of the source, \<^verbatim>\<open>hexStripZeros(decodedFromAbi) === '0x'\<close>, holds exactly of the
  byte values that are all zero (the empty value among them).\<close>

lemma hexStripZeros_hexlify:
  "(hexStripZeros (hexlify bs) = Inr ''0x'') = (\<forall>b \<in> set bs. b = 0)"
proof -
  have "(dropWhile (\<lambda>c. c = CHR ''0'') (concat (map hexByte bs)) = []) = (\<forall>b \<in> set bs. b = 0)"
    using hexByte_zero by auto
  then show ?thesis
    using isHexString_hexlify [of bs] by (simp add: hexStripZeros_def hexlify_def)
qed

section \<open>The shape of the call list\<close>

lemma addCalls_shape:
  "addCalls E items t fa name acc = Inr calls \<Longrightarrow>
     map call_key calls = map call_key acc @ items \<and>
     map call_type calls = map call_type acc @ map (\<lambda>_. t) items"
  by (induction items arbitrary: acc) (auto split: sum.splits)

lemma addCallsR_shape:
  "addCallsR E items acc t ca = Inr calls \<Longrightarrow>
     map call_key calls = map call_key acc @ items \<and>
     map call_type calls = map call_type acc @ map (\<lambda>_. t) items"
  by (induction items arbitrary: acc) (auto split: sum.splits)

lemma contentHashCall_shape:
  "contentHashCall E name options acc = Inr calls \<Longrightarrow>
     map call_key calls = map call_key acc @ hashKey options \<and>
     map call_type calls = map call_type acc @ map (\<lambda>_. Contenthash) (hashKey options)"
  by (auto simp: contentHashCall_def hashKey_def
      split: option.splits contentHashOption.splits bool.splits sum.splits if_splits)

text \<open>The guard \<^verbatim>\<open>!calls.filter(...)\<close> is false for every list, so the guarded push never
  runs: on both paths the call list is left as it is.\<close>

lemma primaryCall_id: "primaryCall E name calls = Inr calls"
  by (simp add: primaryCall_def truthy_def)

lemma primaryCallR_id: "primaryCallR E calls = Inr calls"
  by (simp add: primaryCallR_def truthy_def)

lemma nameCalls_shape:
  assumes "nameCalls E name options = Inr calls"
  shows "map call_key calls =
           requestedKeys (texts options) @ requestedKeys (coinTypes options) @ hashKey options"
    and "map call_type calls =
           map (\<lambda>_. Text) (requestedKeys (texts options)) @
           map (\<lambda>_. Addr) (requestedKeys (coinTypes options)) @
           map (\<lambda>_. Contenthash) (hashKey options)"
proof -
  from assms obtain c1 c2 where
    c1: "textCalls E name options = Inr c1" and
    c2: "coinCalls E name options c1 = Inr c2" and
    c3: "contentHashCall E name options c2 = Inr calls"
    by (auto simp: nameCalls_def primaryCall_id split: sum.splits)
  have k1: "map call_key c1 = requestedKeys (texts options) \<and>
            map call_type c1 = map (\<lambda>_. Text) (requestedKeys (texts options))"
    using c1 addCalls_shape [of E _ Text _ name "[]" c1]
    by (auto simp: textCalls_def requestedKeys_def split: option.splits)
  have k2: "map call_key c2 = map call_key c1 @ requestedKeys (coinTypes options) \<and>
            map call_type c2 = map call_type c1 @ map (\<lambda>_. Addr) (requestedKeys (coinTypes options))"
    using c2 addCalls_shape [of E _ Addr _ name c1 c2]
    by (auto simp: coinCalls_def requestedKeys_def split: option.splits)
  from contentHashCall_shape [OF c3] k1 k2
  show "map call_key calls =
           requestedKeys (texts options) @ requestedKeys (coinTypes options) @ hashKey options"
    and "map call_type calls =
           map (\<lambda>_. Text) (requestedKeys (texts options)) @
           map (\<lambda>_. Addr) (requestedKeys (coinTypes options)) @
           map (\<lambda>_. Contenthash) (hashKey options)"
    by simp_all
qed

lemma addressCalls_shape:
  assumes "addressCalls E options = Inr calls"
  shows "map call_key calls =
           requestedKeys (texts options) @ requestedKeys (coinTypes options) @ hashKey options"
    and "map call_type calls =
           map (\<lambda>_. Text) (requestedKeys (texts options)) @
           map (\<lambda>_. Addr) (requestedKeys (coinTypes options)) @
           map (\<lambda>_. Contenthash) (hashKey options)"
proof -
  from assms obtain c1 c2 where
    c1: "(case texts options of None \<Rightarrow> Inr []
          | Some ts \<Rightarrow> addCallsR E ts [] Text ''(bytes32,string)'') = Inr c1" and
    c2: "(case coinTypes options of None \<Rightarrow> Inr c1
          | Some cs \<Rightarrow> addCallsR E cs c1 Addr ''(bytes32,uint256)'') = Inr c2" and
    c3: "(case contentHash options of
            Some (Flag True) \<Rightarrow>
              (case makeResolverData E ''contenthash(bytes32)'' None None of
                 Inl e \<Rightarrow> Inl e
               | Inr d \<Rightarrow>
                   Inr (c2 @ [\<lparr>call_key = ''contentHash'', call_data = d,
                               call_type = Contenthash\<rparr>]))
          | _ \<Rightarrow> Inr c2) = Inr calls"
    unfolding addressCalls_def primaryCallR_id
    by (auto split: sum.splits)
  have k1: "map call_key c1 = requestedKeys (texts options) \<and>
            map call_type c1 = map (\<lambda>_. Text) (requestedKeys (texts options))"
    using c1 addCallsR_shape [of E _ "[]" Text _ c1]
    by (auto simp: requestedKeys_def split: option.splits)
  have k2: "map call_key c2 = map call_key c1 @ requestedKeys (coinTypes options) \<and>
            map call_type c2 = map call_type c1 @ map (\<lambda>_. Addr) (requestedKeys (coinTypes options))"
    using c2 addCallsR_shape [of E _ c1 Addr _ c2]
    by (auto simp: requestedKeys_def split: option.splits)
  have k3: "map call_key calls = map call_key c2 @ hashKey options \<and>
     map call_type calls = map call_type c2 @ map (\<lambda>_. Contenthash) (hashKey options)"
    using c3 by (auto simp: hashKey_def
      split: option.splits contentHashOption.splits bool.splits sum.splits if_splits)
  from k1 k2 k3
  show "map call_key calls =
           requestedKeys (texts options) @ requestedKeys (coinTypes options) @ hashKey options"
    and "map call_type calls =
           map (\<lambda>_. Text) (requestedKeys (texts options)) @
           map (\<lambda>_. Addr) (requestedKeys (coinTypes options)) @
           map (\<lambda>_. Contenthash) (hashKey options)"
    by simp_all
qed

section \<open>The formatter, item by item\<close>

lemma mapItems_append:
  "length d1 = length c1 \<Longrightarrow>
   mapItems E (d1 @ d2) (c1 @ c2) =
     (case mapItems E d1 c1 of
        Inl e \<Rightarrow> Inl e
      | Inr r1 \<Rightarrow> (case mapItems E d2 c2 of Inl e \<Rightarrow> Inl e | Inr r2 \<Rightarrow> Inr (r1 @ r2)))"
  by (induction d1 c1 rule: list_induct2) (auto split: sum.splits)

lemma returnedRecords_append:
  "returnedRecords (r1 @ r2) = returnedRecords r1 @ returnedRecords r2"
  by (simp add: returnedRecords_def)

lemma returnedRecords_None: "returnedRecords (None # rs) = returnedRecords rs"
  by (simp add: returnedRecords_def)

lemma formatRecords_drop:
  assumes "length d1 = length c1" and "formatItem E item c = Inr None"
  shows "formatRecords E (d1 @ item # d2) (c1 @ c # c2) options =
         formatRecords E (d1 @ d2) (c1 @ c2) options"
  using assms
  by (auto simp: formatRecords_def mapItems_append returnedRecords_append returnedRecords_None
      split: sum.splits)

lemma formatItem_text: "call_type c = Text \<Longrightarrow> formatItem E item c = switchType E item c []"
  by (simp add: formatItem_def)

lemma formatItem_bytes:
  assumes "call_type c \<noteq> Text" and "decodeBytes E item = Inr bs"
  shows "formatItem E item c =
           (if \<forall>b \<in> set bs. b = 0 then Inr None else switchType E item c (hexlify bs))"
proof -
  obtain z where z: "hexStripZeros (hexlify bs) = Inr z"
    using isHexString_hexlify [of bs] by (simp add: hexStripZeros_def)
  have "(z = ''0x'') = (\<forall>b \<in> set bs. b = 0)"
    using hexStripZeros_hexlify [of bs] z by simp
  moreover have "call_type c = Addr \<or> call_type c = Contenthash"
    using assms(1) by (cases "call_type c") simp_all
  ultimately show ?thesis
    using assms(2) z by (simp add: formatItem_def)
qed

lemma formatItem_bytes_error:
  assumes "call_type c \<noteq> Text" and "decodeBytes E item = Inl e"
  shows "formatItem E item c = Inl e"
proof -
  have "call_type c = Addr \<or> call_type c = Contenthash"
    using assms(1) by (cases "call_type c") simp_all
  then show ?thesis using assms(2) by (simp add: formatItem_def)
qed

lemma unset_formatItem: "unset E item c \<Longrightarrow> formatItem E item c = Inr None"
proof (cases "call_type c = Text")
  case True
  assume "unset E item c"
  with True show ?thesis
    by (simp add: unset_def formatItem_text switchType_def)
next
  case False
  assume u: "unset E item c"
  with False obtain bs where bs: "decodeBytes E item = Inr bs" and z: "\<forall>b \<in> set bs. b = 0"
    by (cases "call_type c"; cases "decodeBytes E item") (auto simp: unset_def list_all_iff)
  show ?thesis using formatItem_bytes [OF False bs] z by simp
qed

lemma isHexString_zeroHex: "isHexString v \<Longrightarrow> (hexStripZeros v = Inr ''0x'') = zeroHex v"
  by (simp add: hexStripZeros_def zeroHex_def list_all_iff)

lemma zeroHex_hexlify: "zeroHex (hexlify bs) = (\<forall>b \<in> set bs. b = 0)"
  using isHexString_zeroHex [OF isHexString_hexlify, of bs] hexStripZeros_hexlify [of bs]
  by simp

lemma formatItem_Some:
  assumes "formatItem E item c = Inr (Some r)"
  shows "item_key r = call_key c \<and> item_type r = call_type c \<and> \<not> unset E item c \<and>
         (call_type c = Text \<longrightarrow> decodeString E item = Inr (item_value r) \<and> item_value r \<noteq> []) \<and>
         (call_type c = Contenthash \<longrightarrow> \<not> zeroHex (item_value r))"
proof (cases "call_type c = Text")
  case True
  with assms show ?thesis
    by (auto simp: formatItem_text switchType_def unset_def split: sum.splits if_splits)
next
  case False
  show ?thesis
  proof (cases "decodeBytes E item")
    case (Inl e)
    with assms formatItem_bytes_error [OF False Inl] show ?thesis by simp
  next
    case (Inr bs)
    from assms formatItem_bytes [OF False Inr]
    have nz: "\<not> (\<forall>b \<in> set bs. b = 0)" and sw: "switchType E item c (hexlify bs) = Inr (Some r)"
      by (auto split: if_splits)
    from False sw nz Inr show ?thesis
      by (cases "call_type c")
        (auto simp: switchType_def unset_def list_all_iff zeroHex_hexlify
          split: option.splits sum.splits)
  qed
qed

lemma mapItems_nth:
  "mapItems E data calls = Inr rs \<Longrightarrow>
     length rs = length data \<and> length data \<le> length calls \<and>
     (\<forall>i < length data. formatItem E (data ! i) (calls ! i) = Inr (rs ! i))"
proof (induction E data calls arbitrary: rs rule: mapItems.induct)
  case (1 E calls)
  then show ?case by simp
next
  case (2 E item data)
  then show ?case by simp
next
  case (3 E item data c calls)
  from "3.prems" obtain r rs' where
    r: "formatItem E item c = Inr r" and rs': "mapItems E data calls = Inr rs'" and
    eq: "rs = r # rs'"
    by (auto split: sum.splits)
  from "3.IH" [OF r rs'] r eq show ?case
    by (auto simp: nth_Cons split: nat.splits)
qed

lemma returnedRecords_origin:
  "r \<in> set (returnedRecords rs) \<Longrightarrow> \<exists>i < length rs. rs ! i = Some r"
  by (auto simp: returnedRecords_def in_set_conv_nth)

section \<open>The assembled response\<close>

lemma assemble_texts:
  "assemble options recs = Inr out \<Longrightarrow> set (bucket (out_texts out)) \<subseteq> {r \<in> set recs. item_type r = Text}"
  by (auto simp: assemble_def bucket_def split: sum.splits option.splits)

lemma assemble_coinTypes:
  "assemble options recs = Inr out \<Longrightarrow> set (bucket (out_coinTypes out)) \<subseteq> {r \<in> set recs. item_type r = Addr}"
  by (auto simp: assemble_def bucket_def split: sum.splits option.splits)

lemma assemble_contentHash:
  "assemble options recs = Inr out \<Longrightarrow> contentHashBucket options recs = Inr (out_contentHash out)"
  by (auto simp: assemble_def split: sum.splits)

lemma contentHashBucket_literal:
  "contentHash options = Some (Literal s) \<Longrightarrow>
   contentHashBucket options recs =
     (if isHexString s then Inr (Some (if zeroHex s then None else Some s)) else Inl ArgumentError)"
proof (cases "isHexString s")
  case True
  assume l: "contentHash options = Some (Literal s)"
  from True obtain z where z: "hexStripZeros s = Inr z" by (simp add: hexStripZeros_def)
  with isHexString_zeroHex [OF True] have "(z = ''0x'') = zeroHex s" by simp
  with l z True show ?thesis by (simp add: contentHashBucket_def)
next
  case False
  assume "contentHash options = Some (Literal s)"
  with False show ?thesis by (simp add: contentHashBucket_def hexStripZeros_def)
qed

lemma contentHashBucket_found:
  assumes "contentHashBucket options recs = Inr (Some (Some v))"
  shows "(\<exists>s. contentHash options = Some (Literal s) \<and> v = s \<and> \<not> zeroHex s) \<or>
         (\<exists>r \<in> set recs. item_type r = Contenthash \<and> item_value r = v)"
proof (cases "contentHash options")
  case None
  with assms show ?thesis by (simp add: contentHashBucket_def)
next
  case (Some h)
  show ?thesis
  proof (cases h)
    case (Flag b)
    with Some assms show ?thesis
      by (cases b) (auto simp: contentHashBucket_def find_Some_iff split: option.splits)
  next
    case (Literal s)
    with Some assms contentHashBucket_literal [of options s recs] show ?thesis
      by (auto split: if_splits)
  qed
qed

lemma formatRecords_origin:
  assumes "formatRecords E data calls options = Inr out"
  obtains rs where "mapItems E data calls = Inr rs" and "assemble options (returnedRecords rs) = Inr out"
  using assms by (auto simp: formatRecords_def split: sum.splits)

lemma record_origin:
  assumes "mapItems E data calls = Inr rs" and "r \<in> set (returnedRecords rs)"
  shows "\<exists>i < length data. i < length calls \<and> formatItem E (data ! i) (calls ! i) = Inr (Some r)"
proof -
  from returnedRecords_origin [OF assms(2)] obtain i where i: "i < length rs" "rs ! i = Some r"
    by blast
  with mapItems_nth [OF assms(1)] show ?thesis by (intro exI [of _ i]) auto
qed

lemma hashKey_literal: "contentHash options = Some (Literal s) \<Longrightarrow> hashKey options = []"
  by (simp add: hashKey_def)

lemma no_contenthash_type:
  assumes "map call_type calls =
           map (\<lambda>_. Text) ts @ map (\<lambda>_. Addr) cs @ map (\<lambda>_. Contenthash) []"
  shows "Contenthash \<notin> call_type ` set calls"
proof -
  have "call_type ` set calls = set (map call_type calls)" by simp
  also have "\<dots> \<subseteq> {Text, Addr}" unfolding assms by auto
  finally show ?thesis by auto
qed





section \<open>Responses of the wrong length\<close>

lemma mapItems_take: "mapItems E data calls = mapItems E data (take (length data) calls)"
  by (induction E data calls rule: mapItems.induct) (auto split: sum.splits)

lemma mapItems_long: "length calls < length data \<Longrightarrow> \<exists>e. mapItems E data calls = Inl e"
  by (induction E data calls rule: mapItems.induct) (auto split: sum.splits)

lemma formatRecords_take:
  "formatRecords E data calls options = formatRecords E data (take (length data) calls) options"
  using mapItems_take [of E data calls] by (simp add: formatRecords_def)

lemma formatRecords_long:
  "length calls < length data \<Longrightarrow> \<exists>e. formatRecords E data calls options = Inl e"
  using mapItems_long [of calls data E] by (auto simp: formatRecords_def)

lemma getDataForName_after_decode:
  assumes "nameCalls E name options = Inr calls"
    and "encodeMulticall E (map call_data calls) = Inr d"
    and "resolve E (hexEncodeName E name) d = Inr r"
    and "decodeBytesArray E r = Inr recordData"
  shows "getDataForName E name options =
     ([EvResolve (hexEncodeName E name) d],
      (case decodeAt E recordData (findIndex (\<lambda>x. call_key x = ''60'') calls) of
         Inl e \<Rightarrow> Inl e
       | Inr a \<Rightarrow>
           (case formatRecords E recordData calls options of
              Inl e \<Rightarrow> Inl e
            | Inr recs \<Rightarrow> Inr \<lparr>fr_address = a, fr_records = recs\<rparr>)))"
  using assms by (simp add: getDataForName_def)

section \<open>The slot of the primary address\<close>

lemma hashKey_not_60: "''60'' \<notin> set (hashKey options)"
  by (simp add: hashKey_def)

text \<open>No call of key \<^verbatim>\<open>60\<close> is ever added, so a request that names no \<^verbatim>\<open>60\<close> has no slot
  for the primary address, and both resolvers fail on it whatever the resolver answers.\<close>

lemma findIndex_absent: "\<forall>x \<in> set xs. \<not> p x \<Longrightarrow> findIndex p xs = None"
  by (induction xs) auto

lemma no_60_no_slot:
  assumes "map call_key calls =
             requestedKeys (texts options) @ requestedKeys (coinTypes options) @ hashKey options"
    and "''60'' \<notin> set (requestedKeys (texts options)) \<union> set (requestedKeys (coinTypes options))"
  shows "findIndex (\<lambda>x. call_key x = ''60'') calls = None"
proof -
  have "set (map call_key calls) =
          set (requestedKeys (texts options)) \<union> set (requestedKeys (coinTypes options)) \<union>
          set (hashKey options)"
    unfolding assms(1) by auto
  with assms(2) hashKey_not_60 [of options] have "''60'' \<notin> set (map call_key calls)" by simp
  then have "\<forall>x \<in> set calls. call_key x \<noteq> ''60''" by force
  then show ?thesis by (rule findIndex_absent)
qed

lemma getDataForName_without_60:
  assumes "''60'' \<notin> set (requestedKeys (texts options)) \<union> set (requestedKeys (coinTypes options))"
  shows "\<exists>e. snd (getDataForName E name options) = Inl e"
proof (cases "nameCalls E name options")
  case (Inl e)
  then show ?thesis by (simp add: getDataForName_def)
next
  case (Inr calls)
  from no_60_no_slot [OF nameCalls_shape(1) [OF Inr] assms]
  have "decodeAt E data (findIndex (\<lambda>x. call_key x = ''60'') calls) = Inl TypeError" for data
    by (simp add: decodeAt_def)
  with Inr show ?thesis
    by (auto simp: getDataForName_def split: sum.splits)
qed

lemma getDataForAddress_without_60:
  assumes "''60'' \<notin> set (requestedKeys (texts options)) \<union> set (requestedKeys (coinTypes options))"
  shows "\<exists>e. snd (getDataForAddress E address options) = Inl e"
proof (cases "addressCalls E options")
  case (Inl e)
  then show ?thesis by (simp add: getDataForAddress_def)
next
  case (Inr calls)
  from no_60_no_slot [OF addressCalls_shape(1) [OF Inr] assms]
  have "decodeAt E data (findIndex (\<lambda>x. call_key x = ''60'') calls) = Inl TypeError" for data
    by (simp add: decodeAt_def)
  with Inr show ?thesis
    by (auto simp: getDataForAddress_def split: sum.splits)
qed

section \<open>The reverse resolver with a coder that rejects the type \<^verbatim>\<open>(bytes32\<close>\<close>

text \<open>On the reverse path the data type handed to the ABI coder is computed from the
  call's argument list, and for both argument lists it is the string \<^verbatim>\<open>(bytes32\<close>. With
  a coder that rejects this string, a request with a non-empty key fails while its calls
  are built; any other request has no call of key \<^verbatim>\<open>60\<close> and fails at the missing slot.
  The reverse resolver then returns for no address and no request.\<close>

lemma dataTypeOf_bytes32:
  "dataTypeOf ''(bytes32,string)'' = ''(bytes32''"
  "dataTypeOf ''(bytes32,uint256)'' = ''(bytes32''"
  by (simp_all add: dataTypeOf_def)

lemma addCallsR_rejected:
  assumes rej: "\<And>v. \<exists>e. abiEncode E (dataTypeOf ca) v = Inl e"
    and ne: "dataTypeOf ca \<noteq> []"
  shows "item \<in> set items \<Longrightarrow> item \<noteq> [] \<Longrightarrow> \<exists>e. addCallsR E items acc t ca = Inl e"
proof (induction items arbitrary: acc)
  case Nil
  then show ?case by simp
next
  case (Cons x xs)
  show ?case
  proof (cases "x = []")
    case True
    with Cons.prems have "item \<in> set xs" by auto
    from Cons.IH [OF this Cons.prems(2)] True show ?thesis
      by (simp add: makeResolverData_def)
  next
    case False
    from rej obtain e where "abiEncode E (dataTypeOf ca) x = Inl e" by blast
    with False ne show ?thesis by (simp add: makeResolverData_def)
  qed
qed

lemma addressCalls_rejected:
  assumes rej: "\<And>v. \<exists>e. abiEncode E ''(bytes32'' v = Inl e"
    and k: "k \<in> set (requestedKeys (texts options)) \<union> set (requestedKeys (coinTypes options))"
    and ne: "k \<noteq> []"
  shows "\<exists>e. addressCalls E options = Inl e"
proof (cases "k \<in> set (requestedKeys (texts options))")
  case True
  then obtain ts where ts: "texts options = Some ts" and "k \<in> set ts"
    by (cases "texts options") (auto simp: requestedKeys_def)
  with addCallsR_rejected [of E "''(bytes32,string)''" k ts "[]" Text] rej ne
  obtain e where "addCallsR E ts [] Text ''(bytes32,string)'' = Inl e"
    by (auto simp: dataTypeOf_bytes32)
  with ts show ?thesis by (simp add: addressCalls_def)
next
  case False
  with k obtain cs where cs: "coinTypes options = Some cs" and kc: "k \<in> set cs"
    by (cases "coinTypes options") (auto simp: requestedKeys_def)
  have step: "\<exists>e. addCallsR E cs c1 Addr ''(bytes32,uint256)'' = Inl e" for c1
    using addCallsR_rejected [of E "''(bytes32,uint256)''" k cs c1 Addr] rej ne kc
    by (auto simp: dataTypeOf_bytes32)
  show ?thesis
  proof (cases "case texts options of None \<Rightarrow> Inr []
                | Some ts \<Rightarrow> addCallsR E ts [] Text ''(bytes32,string)''")
    case (Inl e)
    then show ?thesis by (simp add: addressCalls_def)
  next
    case (Inr c1)
    from step [of c1] obtain e where "addCallsR E cs c1 Addr ''(bytes32,uint256)'' = Inl e"
      by blast
    with Inr cs show ?thesis by (simp add: addressCalls_def)
  qed
qed

lemma getDataForAddress_never_returns:
  assumes rej: "\<And>v. \<exists>e. abiEncode E ''(bytes32'' v = Inl e"
  shows "\<exists>e. snd (getDataForAddress E address options) = Inl e"
proof (cases "''60'' \<in> set (requestedKeys (texts options)) \<union> set (requestedKeys (coinTypes options))")
  case True
  from addressCalls_rejected [OF rej True] obtain e where "addressCalls E options = Inl e"
    by auto
  then show ?thesis by (simp add: getDataForAddress_def)
next
  case False
  then show ?thesis by (rule getDataForAddress_without_60)
qed

section \<open>The index query\<close>

lemma graphFetch_empty:
  "request E name = Inr [] \<Longrightarrow> graphFetch E name w = ([EvRequest name], Inl TypeError)"
  by (simp add: graphFetch_def)

lemma graphFetch_Inr:
  "graphFetch E name w = (ev, Inr r) \<Longrightarrow> \<exists>d ds. request E name = Inr (d # ds)"
  by (auto simp: graphFetch_def split: sum.splits list.splits)

section \<open>The entry points\<close>

lemma getDataForAddress_events:
  "ev \<in> set (fst (getDataForAddress E address options)) \<Longrightarrow> \<exists>n cs. ev = EvReverse n cs"
  by (auto simp: getDataForAddress_def split: sum.splits)

lemma internalKeys_total: "f \<noteq> Some (KeysFlag True) \<Longrightarrow> \<exists>ks. internalKeys f = Inr ks"
  by (auto simp: internalKeys_def split: option.splits keysField.splits bool.splits)

lemma internalOptions_total:
  assumes "\<not> shortcut options"
  shows "\<exists>opts. internalOptions (orDefault options) = Inr opts"
proof -
  from assms obtain o' where o': "options = Some o'"
    and t: "want_texts o' \<noteq> Some (KeysFlag True)"
    and c: "want_coinTypes o' \<noteq> Some (KeysFlag True)"
    by (auto simp: shortcut_def split: option.splits)
  from internalKeys_total [OF t] internalKeys_total [OF c] o' show ?thesis
    by (auto simp: internalOptions_def orDefault_def)
qed

lemma graphFetch_events: "fst (graphFetch E name w) = [EvRequest name]"
  by (simp add: graphFetch_def)

lemma getProfileFromAddress_first:
  assumes "shortcut options"
  shows "\<exists>rest. fst (getProfileFromAddress E address options) = EvGetName address # rest"
proof (cases "getName E address")
  case (Inl e)
  with assms show ?thesis by (simp add: getProfileFromAddress_def)
next
  case (Inr nm)
  show ?thesis
  proof (cases "nr_match nm")
    case False
    with assms Inr show ?thesis by (simp add: getProfileFromAddress_def)
  next
    case True
    with assms Inr show ?thesis
      by (auto simp: getProfileFromAddress_def split: prod.splits sum.splits)
  qed
qed

lemma getProfileFromAddress_then_index:
  assumes "shortcut options" and "getName E address = Inr nm" and "nr_match nm"
  shows "\<exists>rest. fst (getProfileFromAddress E address options) =
           EvGetName address # EvRequest (nr_name nm) # rest"
proof -
  obtain ev res where g: "graphFetch E (nr_name nm) (orDefault options) = (ev, res)"
    by (cases "graphFetch E (nr_name nm) (orDefault options)")
  with graphFetch_events [of E "nr_name nm" "orDefault options"]
  have ev: "ev = [EvRequest (nr_name nm)]" by simp
  from assms g ev show ?thesis
    by (auto simp: getProfileFromAddress_def split: prod.splits sum.splits)
qed

lemma fst_getProfile_address:
  "CHR ''.'' \<notin> set s \<Longrightarrow> fst (getProfile E s options) = fst (getProfileFromAddress E s options)"
  by (auto simp: getProfile_def split: prod.splits sum.splits)

section \<open>The shortcut path\<close>

lemma overwriteKeys_internal:
  "\<exists>f'. overwriteKeys (Some rr) field f = Inr f' \<and>
     internalKeys f' =
       Inr (case f of
              Some (KeysFlag True) \<Rightarrow> field rr
            | Some (KeysList ks) \<Rightarrow> Some ks
            | _ \<Rightarrow> None)"
  by (auto simp: overwriteKeys_def internalKeys_def
      split: option.splits keysField.splits bool.splits)

lemma overwriteHash_internal:
  "\<exists>f'. overwriteHash (Some rr) f = Inr f' \<and>
     internalHash f' =
       (case f of
          Some (HashFlag True) \<Rightarrow> map_option Literal (idx_contentHash rr)
        | f \<Rightarrow> internalHash f)"
  by (auto simp: overwriteHash_def internalHash_def
      split: option.splits hashField.splits bool.splits)

lemma overwriteAll_internal:
  "\<exists>w'. overwriteAll (Some rr) w = Inr w' \<and> internalOptions w' = Inr (concretized rr w)"
proof -
  obtain h where h: "overwriteHash (Some rr) (want_contentHash w) = Inr h"
    and h': "internalHash h =
       (case want_contentHash w of
          Some (HashFlag True) \<Rightarrow> map_option Literal (idx_contentHash rr)
        | f \<Rightarrow> internalHash f)"
    using overwriteHash_internal by blast
  obtain t where t: "overwriteKeys (Some rr) idx_texts (want_texts w) = Inr t"
    and t': "internalKeys t =
       Inr (case want_texts w of
              Some (KeysFlag True) \<Rightarrow> idx_texts rr
            | Some (KeysList ks) \<Rightarrow> Some ks
            | _ \<Rightarrow> None)"
    using overwriteKeys_internal by blast
  obtain c where c: "overwriteKeys (Some rr) idx_coinTypes (want_coinTypes w) = Inr c"
    and c': "internalKeys c =
       Inr (case want_coinTypes w of
              Some (KeysFlag True) \<Rightarrow> idx_coinTypes rr
            | Some (KeysList ks) \<Rightarrow> Some ks
            | _ \<Rightarrow> None)"
    using overwriteKeys_internal by blast
  from h t c h' t' c' show ?thesis
    by (simp add: overwriteAll_def internalOptions_def concretized_def)
qed

lemma concretized_no_flag: "contentHash (concretized rr w) \<noteq> Some (Flag True)"
  by (auto simp: concretized_def internalHash_def
      split: option.splits hashField.splits bool.splits)

lemma getDataForName_records:
  "snd (getDataForName E name options) = Inr r \<Longrightarrow>
     \<exists>data calls. nameCalls E name options = Inr calls \<and>
        formatRecords E data calls options = Inr (fr_records r)"
  by (auto simp: getDataForName_def split: sum.splits)

lemma formatRecords_literal:
  assumes "contentHash options = Some (Literal s)"
    and "formatRecords E data cs options = Inr out"
  shows "out_contentHash out = Some (if zeroHex s then None else Some s)"
proof -
  from assms(2) obtain rs where "assemble options (returnedRecords rs) = Inr out"
    by (rule formatRecords_origin)
  from assemble_contentHash [OF this] contentHashBucket_literal [OF assms(1), of "returnedRecords rs"]
  show ?thesis by (auto split: if_splits)
qed

text \<open>After \<^verbatim>\<open>graphFetch\<close> no key list is the boolean \<^verbatim>\<open>true\<close>, and without the shortcut none
  was to begin with (\<open>internalOptions_total\<close>): the TypeError of \<open>internalKeys\<close> is never
  reached from the entry points.\<close>

lemma overwriteKeys_no_flag:
  "overwriteKeys rr field f = Inr f' \<Longrightarrow> f' \<noteq> Some (KeysFlag True)"
  by (auto simp: overwriteKeys_def split: option.splits keysField.splits bool.splits)

lemma graphFetch_internal:
  assumes "snd (graphFetch E name w) = Inr w'"
  shows "\<exists>opts. internalOptions w' = Inr opts"
proof -
  from assms obtain rr where "overwriteAll rr w = Inr w'"
    by (auto simp: graphFetch_def split: sum.splits list.splits)
  then obtain t c where "overwriteKeys rr idx_texts (want_texts w) = Inr t"
    and "overwriteKeys rr idx_coinTypes (want_coinTypes w) = Inr c"
    and "want_texts w' = t" and "want_coinTypes w' = c"
    by (auto simp: overwriteAll_def split: sum.splits)
  with overwriteKeys_no_flag [of rr idx_texts "want_texts w" t]
    overwriteKeys_no_flag [of rr idx_coinTypes "want_coinTypes w" c]
    internalKeys_total [of t] internalKeys_total [of c]
  show ?thesis by (auto simp: internalOptions_def)
qed

section \<open>The claims\<close>

text \<open>
  Claim C1: for every requested record set, the call list built on the forward path and
  on the reverse path contains the guaranteed coin-type-60 descriptor, appended when
  \<^verbatim>\<open>60\<close> is not among the requested coin types, its presence being found by a search of
  the descriptors' keys.

  The code does not do this. Its guard tests the truthiness of the filtered array, which
  holds of every array, so nothing is ever appended (\<open>primaryCall_id\<close>,
  \<open>primaryCallR_id\<close>). On the forward path the request \<^verbatim>\<open>{ texts: ['email'] }\<close> gives the
  single text call; on the reverse path the request \<^verbatim>\<open>{ contentHash: true }\<close> gives the
  single content-hash call. Neither list has a descriptor of key \<^verbatim>\<open>60\<close>.
\<close>

theorem C1_no_primary_call_for_texts_only:
  "nameCalls (sampleENS [] [] noName) ''alice.eth'' onlyEmail =
      Inr [\<lparr>call_key = ''email'', call_data = ''text(bytes32,string)#alice.ethemail'',
            call_type = Text\<rparr>] \<and>
   addressCalls (sampleENS [] [] noName) onlyHash =
      Inr [\<lparr>call_key = ''contentHash'',
            call_data = \<lparr>sig = ''contenthash(bytes32)'', args = []\<rparr>,
            call_type = Contenthash\<rparr>]"
  by code_simp

text \<open>
  Claim C2: for every reverse resolution the \<^verbatim>\<open>match\<close> field returned is true exactly when
  the primary address decoded from the coin-type-60 slot of the responses equals the
  queried address up to letter case, and when it is false the records are \<^verbatim>\<open>null\<close> and the
  formatter is not run.

  The comparison is in the code (lines 163 to 171), but no request reaches it with a
  result. A request with a non-empty key hands the type string \<^verbatim>\<open>(bytes32\<close> to the ABI
  coder (line 130), which rejects it before the reverse call is made. A request without
  such a key has no call of key \<^verbatim>\<open>60\<close>, since none is ever added (C1): the reverse call is
  made and decoding the missing slot throws. For the address whose coin-type-60 record
  is the address itself, the request \<^verbatim>\<open>{ coinTypes: ['60'] }\<close> ends in the first error and
  the request \<^verbatim>\<open>{ contentHash: true }\<close> in the second; no \<^verbatim>\<open>match\<close> field is returned
  (\<open>getDataForAddress_never_returns\<close> for every request).
\<close>

theorem C2_reverse_resolver_never_returns:
  "getDataForAddress (sampleENS [''P''] [] aliceName) sampleAddress onlySixty =
     ([], Inl ArgumentError) \<and>
   getDataForAddress (sampleENS [''H''] [] aliceName) sampleAddress onlyHash =
     ([EvReverse ''00000000000000000000000000000000000000ab.addr.reverse''
         [\<lparr>sig = ''contenthash(bytes32)'', args = []\<rparr>]],
      Inl TypeError)"
  by code_simp

text \<open>
  Claim C3: for every requested record set the forward resolver returns, with the
  formatted records, the primary address decoded from the response at the position of
  the coin-type-60 descriptor, that descriptor being present for every input.

  The descriptor is absent whenever \<^verbatim>\<open>60\<close> was not requested (see C1). For the request
  \<^verbatim>\<open>{ texts: ['email'] }\<close> the call is made, \<^verbatim>\<open>findIndex\<close> gives \<^verbatim>\<open>-1\<close>, the response at
  that index is \<^verbatim>\<open>undefined\<close>, and decoding it throws: no address and no records are
  returned.
\<close>

theorem C3_forward_fails_without_60:
  "getDataForName (sampleENS [''hello''] [] noName) ''alice.eth'' onlyEmail =
     ([EvResolve ''alice.eth'' ''text(bytes32,string)#alice.ethemail''], Inl TypeError)"
  by code_simp

text \<open>
  Claim C4: no record of the formatter's output has an unset value. An item whose text
  decodes to the empty string, or whose address or content-hash bytes are all zero, is
  dropped: the result is the one obtained without that item and its call. Every record
  of the output buckets is the formatted value of an item that is not unset, no text
  record has the empty value, and a content hash in the output is not all zero.
\<close>

theorem C4_unset_values_dropped:
  "(length d1 = length c1 \<and> unset E item c \<longrightarrow>
      formatRecords E (d1 @ item # d2) (c1 @ c # c2) options =
      formatRecords E (d1 @ d2) (c1 @ c2) options) \<and>
   (formatRecords E data calls options = Inr out \<longrightarrow>
      (\<forall>r \<in> set (bucket (out_texts out)) \<union> set (bucket (out_coinTypes out)).
         \<exists>i < length data. i < length calls \<and>
            formatItem E (data ! i) (calls ! i) = Inr (Some r) \<and>
            \<not> unset E (data ! i) (calls ! i)) \<and>
      (\<forall>r \<in> set (bucket (out_texts out)). item_value r \<noteq> []) \<and>
      (\<forall>v. out_contentHash out = Some (Some v) \<longrightarrow> \<not> zeroHex v))"
proof (intro conjI impI)
  assume "length d1 = length c1 \<and> unset E item c"
  then show "formatRecords E (d1 @ item # d2) (c1 @ c # c2) options =
      formatRecords E (d1 @ d2) (c1 @ c2) options"
    using formatRecords_drop [of d1 c1 E item c] unset_formatItem [of E item c] by simp
next
  assume f: "formatRecords E data calls options = Inr out"
  then obtain rs where m: "mapItems E data calls = Inr rs"
    and a: "assemble options (returnedRecords rs) = Inr out"
    by (rule formatRecords_origin)
  show "\<forall>r \<in> set (bucket (out_texts out)) \<union> set (bucket (out_coinTypes out)).
         \<exists>i < length data. i < length calls \<and>
            formatItem E (data ! i) (calls ! i) = Inr (Some r) \<and>
            \<not> unset E (data ! i) (calls ! i)"
  proof
    fix r assume "r \<in> set (bucket (out_texts out)) \<union> set (bucket (out_coinTypes out))"
    with assemble_texts [OF a] assemble_coinTypes [OF a]
    have "r \<in> set (returnedRecords rs)" by auto
    from record_origin [OF m this] obtain i where
      i: "i < length data" "i < length calls" "formatItem E (data ! i) (calls ! i) = Inr (Some r)"
      by blast
    with formatItem_Some [OF i(3)] show "\<exists>i < length data. i < length calls \<and>
            formatItem E (data ! i) (calls ! i) = Inr (Some r) \<and>
            \<not> unset E (data ! i) (calls ! i)"
      by blast
  qed
  show "\<forall>r \<in> set (bucket (out_texts out)). item_value r \<noteq> []"
  proof
    fix r assume "r \<in> set (bucket (out_texts out))"
    with assemble_texts [OF a] have r: "r \<in> set (returnedRecords rs)" "item_type r = Text"
      by auto
    from record_origin [OF m r(1)] obtain i where
      "formatItem E (data ! i) (calls ! i) = Inr (Some r)" by blast
    from formatItem_Some [OF this] r(2) show "item_value r \<noteq> []" by simp
  qed
  show "\<forall>v. out_contentHash out = Some (Some v) \<longrightarrow> \<not> zeroHex v"
  proof (intro allI impI)
    fix v assume "out_contentHash out = Some (Some v)"
    with assemble_contentHash [OF a]
    have "contentHashBucket options (returnedRecords rs) = Inr (Some (Some v))" by simp
    from contentHashBucket_found [OF this] show "\<not> zeroHex v"
    proof
      assume "\<exists>s. contentHash options = Some (Literal s) \<and> v = s \<and> \<not> zeroHex s"
      then show ?thesis by blast
    next
      assume "\<exists>r \<in> set (returnedRecords rs). item_type r = Contenthash \<and> item_value r = v"
      then obtain r where r: "r \<in> set (returnedRecords rs)" "item_type r = Contenthash"
        "item_value r = v" by blast
      from record_origin [OF m r(1)] obtain i where
        "formatItem E (data ! i) (calls ! i) = Inr (Some r)" by blast
      from formatItem_Some [OF this] r(2,3) show ?thesis by simp
    qed
  qed
qed

theorem C4_witness:
  "length [''hi''] = length [emailCall] \<and>
   unset (sampleENS [] [] noName) ''Z'' (coinCall ''60'') \<and>
   formatRecords (sampleENS [] [] noName) [''hi'', ''Z'', ''H'']
       [emailCall, coinCall ''60'', hashCall] everything =
     formatRecords (sampleENS [] [] noName) [''hi'', ''H''] [emailCall, hashCall] everything \<and>
   formatRecords (sampleENS [] [] noName) [''hi'', ''H''] [emailCall, hashCall] everything =
     Inr \<lparr>out_contentHash = Some (Some ''0xe301''), out_coinTypes = Some [],
          out_texts = Some [\<lparr>item_key = ''email'', item_type = Text, item_coin = None,
                              item_value = ''hi''\<rparr>]\<rparr> \<and>
   \<not> zeroHex ''0xe301''"
proof -
  have l: "length [''hi''] = length [emailCall]" by simp
  have u: "unset (sampleENS [] [] noName) ''Z'' (coinCall ''60'')" by code_simp
  have f: "formatRecords (sampleENS [] [] noName) [''hi'', ''H''] [emailCall, hashCall] everything =
     Inr \<lparr>out_contentHash = Some (Some ''0xe301''), out_coinTypes = Some [],
          out_texts = Some [\<lparr>item_key = ''email'', item_type = Text, item_coin = None,
                              item_value = ''hi''\<rparr>]\<rparr>" by code_simp
  from C4_unset_values_dropped [of "[''hi'']" "[emailCall]" "sampleENS [] [] noName" "''Z''"
      "coinCall ''60''" "[''H'']" "[hashCall]" everything
      "[''hi'', ''H'']" "[emailCall, hashCall]"
      "\<lparr>out_contentHash = Some (Some ''0xe301''), out_coinTypes = Some [],
          out_texts = Some [\<lparr>item_key = ''email'', item_type = Text, item_coin = None,
                              item_value = ''hi''\<rparr>]\<rparr>"] l u f
  show ?thesis by simp
qed



text \<open>
  Claim C6, as the code has it. On the shortcut path of a name lookup, when the index
  answers with a domain that has a resolver, the forward resolver is run once, after the
  index query, on the request in which every boolean-\<^verbatim>\<open>true\<close> field has been replaced by
  the index's value; no field of that request is the boolean \<^verbatim>\<open>true\<close>. The text and
  coin-type records are therefore the forward resolver's, read on chain. The content
  hash is not: a \<^verbatim>\<open>contentHash\<close> that was \<^verbatim>\<open>true\<close> has become the index's literal string,
  and that literal (or \<^verbatim>\<open>null\<close> when it is all zero) is the content hash of the result.
\<close>

theorem C6_index_shortcut:
  "shortcut options \<and> request E name = Inr (d # ds) \<and> domain_resolver d = Some rr \<longrightarrow>
     getProfileFromName E name options =
       (EvRequest name # fst (getDataForName E name (concretized rr (orDefault options))),
        snd (getDataForName E name (concretized rr (orDefault options)))) \<and>
     contentHash (concretized rr (orDefault options)) \<noteq> Some (Flag True) \<and>
     (want_contentHash (orDefault options) = Some (HashFlag True) \<and>
      idx_contentHash rr = Some lit \<and>
      snd (getProfileFromName E name options) = Inr r \<longrightarrow>
        out_contentHash (fr_records r) = Some (if zeroHex lit then None else Some lit))"
proof (intro impI)
  assume h: "shortcut options \<and> request E name = Inr (d # ds) \<and> domain_resolver d = Some rr"
  let ?w = "concretized rr (orDefault options)"
  obtain w' where w': "overwriteAll (Some rr) (orDefault options) = Inr w'"
    and i: "internalOptions w' = Inr ?w"
    using overwriteAll_internal by blast
  from h w' have g: "graphFetch E name (orDefault options) = ([EvRequest name], Inr w')"
    by (simp add: graphFetch_def)
  have eq: "getProfileFromName E name options =
       (EvRequest name # fst (getDataForName E name ?w), snd (getDataForName E name ?w))"
    using h g i
    by (cases "getDataForName E name ?w"; cases "snd (getDataForName E name ?w)")
      (simp_all add: getProfileFromName_def)
  have lit: "want_contentHash (orDefault options) = Some (HashFlag True) \<and>
      idx_contentHash rr = Some lit \<and>
      snd (getProfileFromName E name options) = Inr r \<longrightarrow>
        out_contentHash (fr_records r) = Some (if zeroHex lit then None else Some lit)"
  proof
    assume a: "want_contentHash (orDefault options) = Some (HashFlag True) \<and>
      idx_contentHash rr = Some lit \<and>
      snd (getProfileFromName E name options) = Inr r"
    then have c: "contentHash ?w = Some (Literal lit)" by (simp add: concretized_def)
    from a eq have "snd (getDataForName E name ?w) = Inr r" by simp
    from getDataForName_records [OF this] obtain data and calls :: "string call list" where
      "formatRecords E data calls ?w = Inr (fr_records r)" by blast
    from formatRecords_literal [OF c this]
    show "out_contentHash (fr_records r) = Some (if zeroHex lit then None else Some lit)" .
  qed
  from eq concretized_no_flag [of rr "orDefault options"] lit
  show "getProfileFromName E name options =
       (EvRequest name # fst (getDataForName E name ?w), snd (getDataForName E name ?w)) \<and>
     contentHash ?w \<noteq> Some (Flag True) \<and>
     (want_contentHash (orDefault options) = Some (HashFlag True) \<and>
      idx_contentHash rr = Some lit \<and>
      snd (getProfileFromName E name options) = Inr r \<longrightarrow>
        out_contentHash (fr_records r) = Some (if zeroHex lit then None else Some lit))"
    by blast
qed

text \<open>The claim C6 fails for the content hash. With no options, an index that lists the
  text key \<^verbatim>\<open>email\<close>, the coin type \<^verbatim>\<open>60\<close> and the content hash \<^verbatim>\<open>0xe301\<close>, and a
  resolver that answers the two calls made, the content hash of the result is the
  index's value: no content-hash call is in the batch.\<close>

theorem C6_counterexample:
  "request (sampleENS [''hello'', ''P''] [aliceDomain] aliceName) ''alice.eth'' = Inr [aliceDomain] \<and>
   domain_resolver aliceDomain =
     Some \<lparr>idx_texts = Some [''email''], idx_coinTypes = Some [''60''],
           idx_contentHash = Some ''0xe301''\<rparr> \<and>
   getProfileFromName (sampleENS [''hello'', ''P''] [aliceDomain] aliceName) ''alice.eth'' None =
     ([EvRequest ''alice.eth'',
       EvResolve ''alice.eth''
         ''text(bytes32,string)#alice.ethemailaddr(bytes32,uint256)#alice.eth60''],
      Inr \<lparr>fr_address = ''0x00000000000000000000000000000000000000ab'',
           fr_records =
             \<lparr>out_contentHash = Some (Some ''0xe301''),
              out_coinTypes = Some [sixtyRecord],
              out_texts = Some [emailRecord]\<rparr>\<rparr>)"
  by code_simp

theorem C6_witness:
  "shortcut None \<and>
   request (sampleENS [''hello'', ''P''] [aliceDomain] aliceName) ''alice.eth'' =
     Inr (aliceDomain # []) \<and>
   domain_resolver aliceDomain =
     Some \<lparr>idx_texts = Some [''email''], idx_coinTypes = Some [''60''],
           idx_contentHash = Some ''0xe301''\<rparr> \<and>
   concretized \<lparr>idx_texts = Some [''email''], idx_coinTypes = Some [''60''],
                idx_contentHash = Some ''0xe301''\<rparr> (orDefault None) =
     \<lparr>contentHash = Some (Literal ''0xe301''), texts = Some [''email''],
      coinTypes = Some [''60'']\<rparr> \<and>
   want_contentHash (orDefault None) = Some (HashFlag True) \<and>
   snd (getProfileFromName (sampleENS [''hello'', ''P''] [aliceDomain] aliceName) ''alice.eth'' None) =
     Inr \<lparr>fr_address = ''0x00000000000000000000000000000000000000ab'',
          fr_records =
            \<lparr>out_contentHash = Some (Some ''0xe301''),
             out_coinTypes = Some [sixtyRecord],
             out_texts = Some [emailRecord]\<rparr>\<rparr> \<and>
   \<not> zeroHex ''0xe301''"
proof -
  let ?S = "sampleENS [''hello'', ''P''] [aliceDomain] aliceName"
  let ?rr = "\<lparr>idx_texts = Some [''email''], idx_coinTypes = Some [''60''],
           idx_contentHash = Some ''0xe301''\<rparr>"
  let ?r = "\<lparr>fr_address = ''0x00000000000000000000000000000000000000ab'',
          fr_records =
            \<lparr>out_contentHash = Some (Some ''0xe301''),
             out_coinTypes = Some [sixtyRecord],
             out_texts = Some [emailRecord]\<rparr>\<rparr>"
  have h: "shortcut None \<and> request ?S ''alice.eth'' = Inr (aliceDomain # []) \<and>
     domain_resolver aliceDomain = Some ?rr" by code_simp
  have c: "concretized ?rr (orDefault None) =
     \<lparr>contentHash = Some (Literal ''0xe301''), texts = Some [''email''],
      coinTypes = Some [''60'']\<rparr>" by code_simp
  have w: "want_contentHash (orDefault None) = Some (HashFlag True)" by code_simp
  have g: "snd (getDataForName ?S ''alice.eth'' (concretized ?rr (orDefault None))) = Inr ?r"
    by code_simp
  note all = C6_index_shortcut [where E = ?S and name = "''alice.eth''" and options = None
      and d = aliceDomain and ds = "[]" and rr = ?rr and lit = "''0xe301''" and r = ?r,
      THEN mp, OF h]
  from all g have p: "snd (getProfileFromName ?S ''alice.eth'' None) = Inr ?r" by simp
  from all w p have "out_contentHash (fr_records ?r) = Some (if zeroHex ''0xe301'' then None else Some ''0xe301'')"
    by simp
  then have z: "\<not> zeroHex ''0xe301''" by (simp split: if_splits)
  from h c w p z show ?thesis by blast
qed

text \<open>
  Claim C7: when \<^verbatim>\<open>contentHash\<close> is a literal string, no call of type \<^verbatim>\<open>contenthash\<close> is
  built on either path, and the content-hash bucket of the output is \<^verbatim>\<open>null\<close> when the
  literal's digits are all zero and the literal itself otherwise. The formatter returns
  whenever the literal is a hex string and the items format.
\<close>

theorem C7_literal_content_hash:
  "contentHash options = Some (Literal s) \<longrightarrow>
     (nameCalls E name options = Inr calls \<longrightarrow> Contenthash \<notin> call_type ` set calls) \<and>
     (addressCalls E options = Inr rcalls \<longrightarrow> Contenthash \<notin> call_type ` set rcalls) \<and>
     (formatRecords E data cs options = Inr out \<longrightarrow>
        out_contentHash out = Some (if zeroHex s then None else Some s)) \<and>
     (isHexString s \<and> mapItems E data cs = Inr rs \<longrightarrow>
        (\<exists>out. formatRecords E data cs options = Inr out))"
proof (intro impI conjI)
  assume l: "contentHash options = Some (Literal s)"
  { assume "nameCalls E name options = Inr calls"
    from nameCalls_shape(2) [OF this] hashKey_literal [OF l]
    show "Contenthash \<notin> call_type ` set calls" by (simp add: no_contenthash_type) }
  { assume "addressCalls E options = Inr rcalls"
    from addressCalls_shape(2) [OF this] hashKey_literal [OF l]
    show "Contenthash \<notin> call_type ` set rcalls" by (simp add: no_contenthash_type) }
  { assume "formatRecords E data cs options = Inr out"
    then obtain rs' where "assemble options (returnedRecords rs') = Inr out"
      by (rule formatRecords_origin)
    from assemble_contentHash [OF this] contentHashBucket_literal [OF l, of "returnedRecords rs'"]
    show "out_contentHash out = Some (if zeroHex s then None else Some s)"
      by (auto split: if_splits) }
  { assume "isHexString s \<and> mapItems E data cs = Inr rs"
    with contentHashBucket_literal [OF l, of "returnedRecords rs"]
    show "\<exists>out. formatRecords E data cs options = Inr out"
      by (simp add: formatRecords_def assemble_def) }
qed

theorem C7_witness:
  "contentHash zeroLiteral =
     Some (Literal ''0x0000000000000000000000000000000000000000000000000000000000000000'') \<and>
   nameCalls (sampleENS [] [] noName) ''alice.eth'' zeroLiteral =
     Inr [coinCallData ''alice.eth'' ''60''] \<and>
   Contenthash \<notin> call_type ` set [coinCallData ''alice.eth'' ''60''] \<and>
   contentHash literalOnly =
     Some (Literal ''0x0000000000000000000000000000000000000000000000000000000000000000'') \<and>
   addressCalls (sampleENS [] [] noName) literalOnly = Inr [] \<and>
   Contenthash \<notin> call_type ` set ([] :: resolverData call list) \<and>
   isHexString ''0x0000000000000000000000000000000000000000000000000000000000000000'' \<and>
   mapItems (sampleENS [] [] noName) [''P''] [coinCall ''60''] = Inr [Some sixtyRecord] \<and>
   formatRecords (sampleENS [] [] noName) [''P''] [coinCall ''60''] zeroLiteral =
     Inr \<lparr>out_contentHash = Some None, out_coinTypes = Some [sixtyRecord], out_texts = None\<rparr> \<and>
   zeroHex ''0x0000000000000000000000000000000000000000000000000000000000000000''"
proof -
  let ?S = "sampleENS [] [] noName"
  let ?z = "''0x0000000000000000000000000000000000000000000000000000000000000000''"
  let ?out = "\<lparr>out_contentHash = Some None, out_coinTypes = Some [sixtyRecord], out_texts = None\<rparr>"
  have a: "contentHash zeroLiteral = Some (Literal ?z)" by (simp add: zeroLiteral_def)
  have b: "nameCalls ?S ''alice.eth'' zeroLiteral = Inr [coinCallData ''alice.eth'' ''60'']"
    by code_simp
  have a': "contentHash literalOnly = Some (Literal ?z)" by (simp add: literalOnly_def)
  have r: "addressCalls ?S literalOnly = Inr []" by code_simp
  have c: "formatRecords ?S [''P''] [coinCall ''60''] zeroLiteral = Inr ?out" by code_simp
  have m: "isHexString ?z \<and> mapItems ?S [''P''] [coinCall ''60''] = Inr [Some sixtyRecord]"
    by code_simp
  note all = C7_literal_content_hash [where options = zeroLiteral and s = ?z and E = ?S
      and data = "[''P'']" and cs = "[coinCall ''60'']" and name = "''alice.eth''"
      and calls = "[coinCallData ''alice.eth'' ''60'']" and rcalls = "[]"
      and rs = "[Some sixtyRecord]" and out = ?out, THEN mp, OF a]
  note rev = C7_literal_content_hash [where options = literalOnly and s = ?z and E = ?S
      and rcalls = "[]", THEN mp, OF a', THEN conjunct2, THEN conjunct1, THEN mp, OF r]
  from all b have n1: "Contenthash \<notin> call_type ` set [coinCallData ''alice.eth'' ''60'']"
    by blast
  from all c have "out_contentHash ?out = Some (if zeroHex ?z then None else Some ?z)"
    by blast
  then have z: "zeroHex ?z" by (simp split: if_splits)
  from a b n1 a' r rev m c z show ?thesis by blast
qed

text \<open>
  Claim C8, as the code has it. The claim says that a response whose item count differs
  from the number of calls makes the decode step fail with a DecodeError. The code
  compares no counts. After the response has been decoded into \<open>recordData\<close>, the result
  is the address decoded at the position of key \<^verbatim>\<open>60\<close> with the records formatted
  against the first \<open>length recordData\<close> calls: a short response gives a truncated record
  set and no error of its own. A response longer than the call list always ends in an
  error (the formatter reads a call that does not exist, unless an item fails earlier).
\<close>

theorem C8_no_count_check:
  "nameCalls E name options = Inr calls \<and>
   encodeMulticall E (map call_data calls) = Inr d \<and>
   resolve E (hexEncodeName E name) d = Inr r \<and>
   decodeBytesArray E r = Inr recordData \<longrightarrow>
     (length calls < length recordData \<longrightarrow>
        (\<exists>e. snd (getDataForName E name options) = Inl e)) \<and>
     snd (getDataForName E name options) =
       (case decodeAt E recordData (findIndex (\<lambda>x. call_key x = ''60'') calls) of
          Inl e \<Rightarrow> Inl e
        | Inr a \<Rightarrow>
            (case formatRecords E recordData (take (length recordData) calls) options of
               Inl e \<Rightarrow> Inl e
             | Inr recs \<Rightarrow> Inr \<lparr>fr_address = a, fr_records = recs\<rparr>))"
proof (intro impI conjI)
  assume h: "nameCalls E name options = Inr calls \<and>
   encodeMulticall E (map call_data calls) = Inr d \<and>
   resolve E (hexEncodeName E name) d = Inr r \<and>
   decodeBytesArray E r = Inr recordData"
  then have g: "snd (getDataForName E name options) =
      (case decodeAt E recordData (findIndex (\<lambda>x. call_key x = ''60'') calls) of
         Inl e \<Rightarrow> Inl e
       | Inr a \<Rightarrow>
           (case formatRecords E recordData calls options of
              Inl e \<Rightarrow> Inl e
            | Inr recs \<Rightarrow> Inr \<lparr>fr_address = a, fr_records = recs\<rparr>))"
    using getDataForName_after_decode [of E name options calls d r recordData] by simp
  show "snd (getDataForName E name options) =
       (case decodeAt E recordData (findIndex (\<lambda>x. call_key x = ''60'') calls) of
          Inl e \<Rightarrow> Inl e
        | Inr a \<Rightarrow>
            (case formatRecords E recordData (take (length recordData) calls) options of
               Inl e \<Rightarrow> Inl e
             | Inr recs \<Rightarrow> Inr \<lparr>fr_address = a, fr_records = recs\<rparr>))"
    unfolding g by (subst formatRecords_take) (rule refl)
  assume "length calls < length recordData"
  from formatRecords_long [OF this, of E options] g
  show "\<exists>e. snd (getDataForName E name options) = Inl e"
    by (auto split: sum.splits)
qed

text \<open>The claim C8 fails for the request \<^verbatim>\<open>{ coinTypes: ['60', '0'] }\<close> answered with one
  item: two calls are built, one item comes back, and the resolver returns the address
  and the one record instead of failing.\<close>

theorem C8_counterexample:
  "nameCalls (sampleENS [''P''] [] noName) ''alice.eth'' sixtyAndZero =
     Inr [\<lparr>call_key = ''60'', call_data = ''addr(bytes32,uint256)#alice.eth60'', call_type = Addr\<rparr>,
          \<lparr>call_key = ''0'', call_data = ''addr(bytes32,uint256)#alice.eth0'', call_type = Addr\<rparr>] \<and>
   decodeBytesArray (sampleENS [''P''] [] noName) ''R'' = Inr [''P''] \<and>
   getDataForName (sampleENS [''P''] [] noName) ''alice.eth'' sixtyAndZero =
     ([EvResolve ''alice.eth'' ''addr(bytes32,uint256)#alice.eth60addr(bytes32,uint256)#alice.eth0''],
      Inr \<lparr>fr_address = ''0x00000000000000000000000000000000000000ab'',
           fr_records =
             \<lparr>out_contentHash = None,
              out_coinTypes = Some [\<lparr>item_key = ''60'', item_type = Addr, item_coin = Some ''ETH'',
                 item_value = ''0x00000000000000000000000000000000000000ab''\<rparr>],
              out_texts = None\<rparr>\<rparr>)"
  by code_simp

theorem C8_witness:
  "nameCalls (sampleENS [''P''] [] noName) ''alice.eth'' sixtyAndZero =
     Inr [coinCallData ''alice.eth'' ''60'', coinCallData ''alice.eth'' ''0''] \<and>
   decodeBytesArray (sampleENS [''P''] [] noName) ''R'' = Inr [''P''] \<and>
   snd (getDataForName (sampleENS [''P''] [] noName) ''alice.eth'' sixtyAndZero) =
     Inr \<lparr>fr_address = ''0x00000000000000000000000000000000000000ab'',
          fr_records =
            \<lparr>out_contentHash = None,
             out_coinTypes = Some [\<lparr>item_key = ''60'', item_type = Addr, item_coin = Some ''ETH'',
                item_value = ''0x00000000000000000000000000000000000000ab''\<rparr>],
             out_texts = None\<rparr>\<rparr> \<and>
   nameCalls (sampleENS [''P'', ''Q''] [] noName) ''alice.eth'' onlySixty =
     Inr [coinCallData ''alice.eth'' ''60''] \<and>
   decodeBytesArray (sampleENS [''P'', ''Q''] [] noName) ''R'' = Inr [''P'', ''Q''] \<and>
   length [coinCallData ''alice.eth'' ''60''] < length [''P'', ''Q''] \<and>
   (\<exists>e. snd (getDataForName (sampleENS [''P'', ''Q''] [] noName) ''alice.eth'' onlySixty) = Inl e)"
proof -
  let ?S = "sampleENS [''P''] [] noName"
  let ?calls = "[coinCallData ''alice.eth'' ''60'', coinCallData ''alice.eth'' ''0'']"
  let ?d = "''addr(bytes32,uint256)#alice.eth60addr(bytes32,uint256)#alice.eth0''"
  have h: "nameCalls ?S ''alice.eth'' sixtyAndZero = Inr ?calls \<and>
     encodeMulticall ?S (map call_data ?calls) = Inr ?d \<and>
     resolve ?S (hexEncodeName ?S ''alice.eth'') ?d = Inr ''R'' \<and>
     decodeBytesArray ?S ''R'' = Inr [''P'']"
    by code_simp
  have rhs: "(case decodeAt ?S [''P''] (findIndex (\<lambda>x. call_key x = ''60'') ?calls) of
          Inl e \<Rightarrow> Inl e
        | Inr a \<Rightarrow>
            (case formatRecords ?S [''P''] (take (length [''P'']) ?calls) sixtyAndZero of
               Inl e \<Rightarrow> Inl e
             | Inr recs \<Rightarrow> Inr \<lparr>fr_address = a, fr_records = recs\<rparr>)) =
     Inr \<lparr>fr_address = ''0x00000000000000000000000000000000000000ab'',
          fr_records =
            \<lparr>out_contentHash = None,
             out_coinTypes = Some [\<lparr>item_key = ''60'', item_type = Addr, item_coin = Some ''ETH'',
                item_value = ''0x00000000000000000000000000000000000000ab''\<rparr>],
             out_texts = None\<rparr>\<rparr>"
    by code_simp
  note short = C8_no_count_check [where E = ?S and name = "''alice.eth''"
      and options = sixtyAndZero and calls = ?calls and d = ?d and r = "''R''"
      and recordData = "[''P'']", THEN mp, OF h, THEN conjunct2]
  let ?T = "sampleENS [''P'', ''Q''] [] noName"
  let ?one = "[coinCallData ''alice.eth'' ''60'']"
  let ?d1 = "''addr(bytes32,uint256)#alice.eth60''"
  have k: "nameCalls ?T ''alice.eth'' onlySixty = Inr ?one \<and>
     encodeMulticall ?T (map call_data ?one) = Inr ?d1 \<and>
     resolve ?T (hexEncodeName ?T ''alice.eth'') ?d1 = Inr ''R'' \<and>
     decodeBytesArray ?T ''R'' = Inr [''P'', ''Q'']"
    by code_simp
  have l: "length ?one < length [''P'', ''Q'']" by simp
  note long = C8_no_count_check [where E = ?T and name = "''alice.eth''"
      and options = onlySixty and calls = ?one and d = ?d1 and r = "''R''"
      and recordData = "[''P'', ''Q'']", THEN mp, OF k, THEN conjunct1, THEN mp, OF l]
  from short rhs have s: "snd (getDataForName ?S ''alice.eth'' sixtyAndZero) =
     Inr \<lparr>fr_address = ''0x00000000000000000000000000000000000000ab'',
          fr_records =
            \<lparr>out_contentHash = None,
             out_coinTypes = Some [\<lparr>item_key = ''60'', item_type = Addr, item_coin = Some ''ETH'',
                item_value = ''0x00000000000000000000000000000000000000ab''\<rparr>],
             out_texts = None\<rparr>\<rparr>"
    by (rule trans)
  from h k l s long show ?thesis by blast
qed

text \<open>
  Claim C9, as the code has it. An input containing \<^verbatim>\<open>.\<close> takes the name path. Any other
  input takes the address path, which has two branches. With no options, or with
  \<^verbatim>\<open>texts\<close> or \<^verbatim>\<open>coinTypes\<close> equal to \<^verbatim>\<open>true\<close>, the name of the address is looked up
  first, whatever follows: when the lookup reports no match the result
  \<^verbatim>\<open>{ name, records: null, match: false }\<close> is returned with the lookup as the only call
  made, and when it reports a match the index query for that name is the next call. With
  narrowing options the name is not looked up: the reverse resolver is run directly, and
  the only call it can make is the on-chain reverse call.
\<close>

theorem C9_dispatch:
  "(CHR ''.'' \<in> set nameOrAddress \<longrightarrow>
      getProfile E nameOrAddress options =
        (case getProfileFromName E nameOrAddress options of
           (ev, Inl e) \<Rightarrow> (ev, Inl e)
         | (ev, Inr r) \<Rightarrow> (ev, Inr (NameProfile r)))) \<and>
   (CHR ''.'' \<notin> set nameOrAddress \<and> shortcut options \<longrightarrow>
      (\<exists>rest. fst (getProfile E nameOrAddress options) = EvGetName nameOrAddress # rest)) \<and>
   (CHR ''.'' \<notin> set nameOrAddress \<and> shortcut options \<and>
    getName E nameOrAddress = Inr nm \<and> \<not> nr_match nm \<longrightarrow>
      getProfile E nameOrAddress options =
        ([EvGetName nameOrAddress],
         Inr (AddressProfile \<lparr>rr_name = NameObject nm, rr_records = None, rr_match = False\<rparr>))) \<and>
   (CHR ''.'' \<notin> set nameOrAddress \<and> shortcut options \<and>
    getName E nameOrAddress = Inr nm \<and> nr_match nm \<longrightarrow>
      (\<exists>rest. fst (getProfile E nameOrAddress options) =
          EvGetName nameOrAddress # EvRequest (nr_name nm) # rest)) \<and>
   (CHR ''.'' \<notin> set nameOrAddress \<and> \<not> shortcut options \<longrightarrow>
      (\<exists>opts. internalOptions (orDefault options) = Inr opts \<and>
         getProfile E nameOrAddress options =
           (case getDataForAddress E nameOrAddress opts of
              (ev, Inl e) \<Rightarrow> (ev, Inl e)
            | (ev, Inr r) \<Rightarrow> (ev, Inr (AddressProfile r)))) \<and>
      (\<forall>ev \<in> set (fst (getProfile E nameOrAddress options)). \<exists>n cs. ev = EvReverse n cs))"
proof (intro conjI impI)
  assume "CHR ''.'' \<in> set nameOrAddress"
  then show "getProfile E nameOrAddress options =
        (case getProfileFromName E nameOrAddress options of
           (ev, Inl e) \<Rightarrow> (ev, Inl e)
         | (ev, Inr r) \<Rightarrow> (ev, Inr (NameProfile r)))"
    by (simp add: getProfile_def)
next
  assume "CHR ''.'' \<notin> set nameOrAddress \<and> shortcut options"
  then show "\<exists>rest. fst (getProfile E nameOrAddress options) = EvGetName nameOrAddress # rest"
    using getProfileFromAddress_first [of options E nameOrAddress]
    by (simp add: fst_getProfile_address)
next
  assume "CHR ''.'' \<notin> set nameOrAddress \<and> shortcut options \<and>
    getName E nameOrAddress = Inr nm \<and> \<not> nr_match nm"
  then show "getProfile E nameOrAddress options =
        ([EvGetName nameOrAddress],
         Inr (AddressProfile \<lparr>rr_name = NameObject nm, rr_records = None, rr_match = False\<rparr>))"
    by (simp add: getProfile_def getProfileFromAddress_def)
next
  assume "CHR ''.'' \<notin> set nameOrAddress \<and> shortcut options \<and>
    getName E nameOrAddress = Inr nm \<and> nr_match nm"
  then show "\<exists>rest. fst (getProfile E nameOrAddress options) =
          EvGetName nameOrAddress # EvRequest (nr_name nm) # rest"
    using getProfileFromAddress_then_index [of options E nameOrAddress nm]
    by (simp add: fst_getProfile_address)
next
  assume h: "CHR ''.'' \<notin> set nameOrAddress \<and> \<not> shortcut options"
  then obtain opts where o: "internalOptions (orDefault options) = Inr opts"
    using internalOptions_total by blast
  have g: "getProfile E nameOrAddress options =
           (case getDataForAddress E nameOrAddress opts of
              (ev, Inl e) \<Rightarrow> (ev, Inl e)
            | (ev, Inr r) \<Rightarrow> (ev, Inr (AddressProfile r)))"
    using h o by (simp add: getProfile_def getProfileFromAddress_def)
  with o show "\<exists>opts. internalOptions (orDefault options) = Inr opts \<and>
         getProfile E nameOrAddress options =
           (case getDataForAddress E nameOrAddress opts of
              (ev, Inl e) \<Rightarrow> (ev, Inl e)
            | (ev, Inr r) \<Rightarrow> (ev, Inr (AddressProfile r)))"
    by blast
  have "fst (getProfile E nameOrAddress options) = fst (getDataForAddress E nameOrAddress opts)"
    unfolding g by (auto split: prod.splits sum.splits)
  then show "\<forall>ev \<in> set (fst (getProfile E nameOrAddress options)). \<exists>n cs. ev = EvReverse n cs"
    using getDataForAddress_events by metis
qed

text \<open>The claim C9 fails for an address with narrowing options: for
  \<^verbatim>\<open>{ contentHash: true }\<close> the name lookup (which would report no name) is never made,
  the on-chain reverse call with the content-hash call is, and the resolution then
  throws at the missing slot of key \<^verbatim>\<open>60\<close> instead of returning the no-match result.\<close>

theorem C9_counterexample:
  "CHR ''.'' \<notin> set sampleAddress \<and>
   getName (sampleENS [''H''] [] noName) sampleAddress = Inr noName \<and>
   \<not> nr_match noName \<and>
   getProfile (sampleENS [''H''] [] noName) sampleAddress (Some hashWanted) =
     ([EvReverse ''00000000000000000000000000000000000000ab.addr.reverse''
         [\<lparr>sig = ''contenthash(bytes32)'', args = []\<rparr>]],
      Inl TypeError)"
  by code_simp

theorem C9_witness:
  "CHR ''.'' \<in> set ''alice.eth'' \<and>
   getProfile (sampleENS [''P''] [aliceDomain] aliceName) ''alice.eth'' (Some narrow) =
     ([EvResolve ''alice.eth'' ''addr(bytes32,uint256)#alice.eth60''],
      Inr (NameProfile
        \<lparr>fr_address = ''0x00000000000000000000000000000000000000ab'',
         fr_records = \<lparr>out_contentHash = None, out_coinTypes = Some [sixtyRecord],
                        out_texts = None\<rparr>\<rparr>)) \<and>
   CHR ''.'' \<notin> set sampleAddress \<and> shortcut None \<and>
   getName (sampleENS [''P''] [] noName) sampleAddress = Inr noName \<and> \<not> nr_match noName \<and>
   getProfile (sampleENS [''P''] [] noName) sampleAddress None =
     ([EvGetName sampleAddress],
      Inr (AddressProfile \<lparr>rr_name = NameObject noName, rr_records = None, rr_match = False\<rparr>)) \<and>
   (\<exists>rest. fst (getProfile (sampleENS [''P''] [] noName) sampleAddress None) =
      EvGetName sampleAddress # rest) \<and>
   getName (sampleENS [''hello'', ''P''] [aliceDomain] aliceName) sampleAddress = Inr aliceName \<and>
   nr_match aliceName \<and>
   (\<exists>rest. fst (getProfile (sampleENS [''hello'', ''P''] [aliceDomain] aliceName) sampleAddress None) =
      EvGetName sampleAddress # EvRequest (nr_name aliceName) # rest) \<and>
   \<not> shortcut (Some hashWanted) \<and>
   (\<exists>opts. internalOptions (orDefault (Some hashWanted)) = Inr opts \<and>
      getProfile (sampleENS [''H''] [] noName) sampleAddress (Some hashWanted) =
        (case getDataForAddress (sampleENS [''H''] [] noName) sampleAddress opts of
           (ev, Inl e) \<Rightarrow> (ev, Inl e)
         | (ev, Inr r) \<Rightarrow> (ev, Inr (AddressProfile r))))"
proof -
  let ?A = "sampleENS [''P''] [aliceDomain] aliceName"
  let ?p = "NameProfile
        \<lparr>fr_address = ''0x00000000000000000000000000000000000000ab'',
         fr_records = \<lparr>out_contentHash = None, out_coinTypes = Some [sixtyRecord],
                        out_texts = None\<rparr>\<rparr>"
  let ?S = "sampleENS [''P''] [] noName"
  let ?M = "sampleENS [''hello'', ''P''] [aliceDomain] aliceName"
  let ?H = "sampleENS [''H''] [] noName"
  have d: "CHR ''.'' \<in> set ''alice.eth''" by simp
  have n: "(case getProfileFromName ?A ''alice.eth'' (Some narrow) of
           (ev, Inl e) \<Rightarrow> (ev, Inl e)
         | (ev, Inr r) \<Rightarrow> (ev, Inr (NameProfile r))) =
     ([EvResolve ''alice.eth'' ''addr(bytes32,uint256)#alice.eth60''], Inr ?p)"
    by code_simp
  note byName = C9_dispatch [where E = ?A and nameOrAddress = "''alice.eth''"
      and options = "Some narrow", THEN conjunct1, THEN mp, OF d]
  have a: "CHR ''.'' \<notin> set sampleAddress \<and> shortcut None \<and>
    getName ?S sampleAddress = Inr noName \<and> \<not> nr_match noName" by code_simp
  note unbound = C9_dispatch [where E = ?S and nameOrAddress = sampleAddress
      and options = None and nm = noName,
      THEN conjunct2, THEN conjunct2, THEN conjunct1, THEN mp, OF a]
  from a have a': "CHR ''.'' \<notin> set sampleAddress \<and> shortcut None" by simp
  note first = C9_dispatch [where E = ?S and nameOrAddress = sampleAddress
      and options = None, THEN conjunct2, THEN conjunct1, THEN mp, OF a']
  have m: "CHR ''.'' \<notin> set sampleAddress \<and> shortcut None \<and>
    getName ?M sampleAddress = Inr aliceName \<and> nr_match aliceName" by code_simp
  note bound = C9_dispatch [where E = ?M and nameOrAddress = sampleAddress
      and options = None and nm = aliceName,
      THEN conjunct2, THEN conjunct2, THEN conjunct2, THEN conjunct1, THEN mp, OF m]
  have b: "CHR ''.'' \<notin> set sampleAddress \<and> \<not> shortcut (Some hashWanted)" by code_simp
  note direct = C9_dispatch [where E = ?H and nameOrAddress = sampleAddress
      and options = "Some hashWanted",
      THEN conjunct2, THEN conjunct2, THEN conjunct2, THEN conjunct2, THEN mp, OF b,
      THEN conjunct1]
  from byName n have "getProfile ?A ''alice.eth'' (Some narrow) =
     ([EvResolve ''alice.eth'' ''addr(bytes32,uint256)#alice.eth60''], Inr ?p)"
    by (rule trans)
  with d a m b unbound first bound direct show ?thesis by blast
qed

text \<open>
  Claim C10: \<^verbatim>\<open>graphFetch\<close> returns only when the index answers with at least one domain.
  For a name the index does not know (an empty \<^verbatim>\<open>domains\<close> list) the destructuring
  throws a TypeError, and so does the whole resolution on the shortcut path, by name and
  by address: the index query is the last call made, and no on-chain call follows as a
  fallback.
\<close>

theorem C10_index_miss_throws:
  "(request E name = Inr [] \<longrightarrow>
      graphFetch E name wantedRecords = ([EvRequest name], Inl TypeError) \<and>
      (shortcut options \<longrightarrow>
         getProfileFromName E name options = ([EvRequest name], Inl TypeError)) \<and>
      (shortcut options \<and> getName E address = Inr \<lparr>nr_name = name, nr_match = True\<rparr> \<longrightarrow>
         getProfileFromAddress E address options =
           ([EvGetName address, EvRequest name], Inl TypeError))) \<and>
   (snd (graphFetch E name wantedRecords) = Inr fetched \<longrightarrow>
      (\<exists>d ds. request E name = Inr (d # ds)))"
proof (intro conjI impI)
  assume e: "request E name = Inr []"
  show g: "graphFetch E name wantedRecords = ([EvRequest name], Inl TypeError)"
    using e by (rule graphFetch_empty)
  { assume "shortcut options"
    then show "getProfileFromName E name options = ([EvRequest name], Inl TypeError)"
      by (simp add: getProfileFromName_def graphFetch_empty [OF e]) }
  { assume "shortcut options \<and> getName E address = Inr \<lparr>nr_name = name, nr_match = True\<rparr>"
    then show "getProfileFromAddress E address options =
           ([EvGetName address, EvRequest name], Inl TypeError)"
      by (simp add: getProfileFromAddress_def graphFetch_empty [OF e]) }
next
  assume "snd (graphFetch E name wantedRecords) = Inr fetched"
  then have "graphFetch E name wantedRecords = (fst (graphFetch E name wantedRecords), Inr fetched)"
    by (metis prod.collapse)
  then show "\<exists>d ds. request E name = Inr (d # ds)" by (rule graphFetch_Inr)
qed

theorem C10_witness:
  "request (sampleENS [] [] aliceName) ''alice.eth'' = Inr [] \<and>
   graphFetch (sampleENS [] [] aliceName) ''alice.eth'' defaultOptions =
     ([EvRequest ''alice.eth''], Inl TypeError) \<and>
   shortcut None \<and>
   getProfileFromName (sampleENS [] [] aliceName) ''alice.eth'' None =
     ([EvRequest ''alice.eth''], Inl TypeError) \<and>
   getName (sampleENS [] [] aliceName) sampleAddress =
     Inr \<lparr>nr_name = ''alice.eth'', nr_match = True\<rparr> \<and>
   getProfileFromAddress (sampleENS [] [] aliceName) sampleAddress None =
     ([EvGetName sampleAddress, EvRequest ''alice.eth''], Inl TypeError) \<and>
   snd (graphFetch (sampleENS [] [aliceDomain] aliceName) ''alice.eth'' defaultOptions) =
     Inr \<lparr>want_contentHash = Some (HashLiteral ''0xe301''),
          want_texts = Some (KeysList [''email'']),
          want_coinTypes = Some (KeysList [''60''])\<rparr> \<and>
   (\<exists>d ds. request (sampleENS [] [aliceDomain] aliceName) ''alice.eth'' = Inr (d # ds))"
proof -
  let ?S = "sampleENS [] [] aliceName"
  have e: "request ?S ''alice.eth'' = Inr []" by code_simp
  have s: "shortcut None" by code_simp
  have n: "getName ?S sampleAddress = Inr \<lparr>nr_name = ''alice.eth'', nr_match = True\<rparr>"
    by code_simp
  note miss = C10_index_miss_throws [where E = ?S and name = "''alice.eth''"
      and wantedRecords = defaultOptions and options = None and address = sampleAddress,
      THEN conjunct1, THEN mp, OF e]
  let ?T = "sampleENS [] [aliceDomain] aliceName"
  have f: "snd (graphFetch ?T ''alice.eth'' defaultOptions) =
     Inr \<lparr>want_contentHash = Some (HashLiteral ''0xe301''),
          want_texts = Some (KeysList [''email'']),
          want_coinTypes = Some (KeysList [''60''])\<rparr>" by code_simp
  note hit = C10_index_miss_throws [where E = ?T and name = "''alice.eth''"
      and wantedRecords = defaultOptions, THEN conjunct2, THEN mp, OF f]
  from e s n miss hit f show ?thesis by blast
qed

end
